theory Spec2Isabelle
  imports Main "HOL-Library.Word"
begin

unbundle bit_operations_syntax

section \<open>Values, errors and the struct helpers\<close>

text \<open>
  A Python \<open>bytes\<close> object is a list of octets. Python integers are unbounded and are
  modelled as \<open>int\<close>; offsets and lengths, which the callers never make negative, are
  \<open>nat\<close>. Every exception the modelled code can raise is a constructor of \<open>error\<close>,
  and a function that can raise returns \<open>error + 'a\<close> with \<open>Inl\<close> for the exception.
  \<open>UnpackError\<close> carries the message of the \<open>raise\<close> statement (empty where the
  source gives none).
\<close>

type_synonym byte = "8 word"
type_synonym bytes = "byte list"

datatype error =
    NeedData
  | UnpackError string
  | PackError
  | StructError
  | IndexError
  | TypeError
  | AttributeError
  | UnicodeError
  | ValueError

text \<open>\<open>buf[a:b]\<close> for \<open>0 \<le> a\<close>: Python clips a slice at the end of the buffer.\<close>

definition slice :: "'a list \<Rightarrow> nat \<Rightarrow> nat \<Rightarrow> 'a list" where
  "slice buf a b = take (b - a) (drop a buf)"

text \<open>
  \<open>struct.pack\<close> of one unsigned big-endian field of 1, 2 or 4 octets: \<open>struct.error\<close>
  when the value is out of the field's range.
\<close>

definition pack_B :: "int \<Rightarrow> error + bytes" where
  "pack_B v = (if 0 \<le> v \<and> v < 256 then Inr [word_of_int v] else Inl StructError)"

definition pack_H :: "int \<Rightarrow> error + bytes" where
  "pack_H v =
     (if 0 \<le> v \<and> v < 65536
      then Inr [word_of_int (drop_bit 8 v), word_of_int v]
      else Inl StructError)"

definition pack_I :: "int \<Rightarrow> error + bytes" where
  "pack_I v =
     (if 0 \<le> v \<and> v < 4294967296
      then Inr [word_of_int (drop_bit 24 v), word_of_int (drop_bit 16 v),
                word_of_int (drop_bit 8 v), word_of_int v]
      else Inl StructError)"

text \<open>\<open>struct.unpack('>H', b)[0]\<close> on exactly two octets, as a number.\<close>

definition be16 :: "byte \<Rightarrow> byte \<Rightarrow> nat" where
  "be16 hi lo = unat hi * 256 + unat lo"

text \<open>Sequencing of computations that can raise.\<close>

definition bind :: "error + 'a \<Rightarrow> ('a \<Rightarrow> error + 'b) \<Rightarrow> error + 'b" where
  "bind m f = (case m of Inl e \<Rightarrow> Inl e | Inr x \<Rightarrow> f x)"

section \<open>DNS header flags (dns.py, class DNS)\<close>

definition DNS_TC :: int where "DNS_TC = 0x0200"







definition tc :: "int \<Rightarrow> int" where
  "tc op = (if op AND DNS_TC = DNS_TC then 1 else 0)"
















section \<open>The packet base class (dpkt.Packet)\<close>

text \<open>
  Modelled from the spec: \<open>dpkt.Packet\<close>, the generic field codec that every class
  below extends, is not among the source files. From the spec (4.1 and 7): decoding
  reads exactly the declared fixed-width fields from the start of the buffer in network
  byte order and leaves the rest as the payload \<open>data\<close>; it fails with \<open>NeedData\<close>
  when the buffer is shorter than the fixed header; encoding serialises the current
  field values and fails with a pack error when a value does not fit its field; a
  truncated IE is a decode error. The length of a packet is its header size plus the
  length of its payload, and its bytes are its packed header followed by its payload.
  Each class's instance of that codec is written out where the class is modelled.
\<close>

section \<open>GTPv2 information elements (gtp_c.py, class IEv2)\<close>

record iev2 =
  ie2_type :: int
  ie2_len :: int
  ie2_flags :: int
  ie2_data :: bytes

text \<open>\<open>IEv2(type=..., data=...)\<close>: the header defaults, then the keyword arguments.\<close>

definition IEv2_default :: iev2 where
  "IEv2_default = \<lparr>ie2_type = 0, ie2_len = 0, ie2_flags = 0, ie2_data = []\<rparr>"

definition cr_flag :: "iev2 \<Rightarrow> int" where
  "cr_flag ie = drop_bit 4 (ie2_flags ie) AND 0xf"

text \<open>The body of both setters is \<open>pass\<close>: the object is left as it is.\<close>

definition set_cr_flag :: "int \<Rightarrow> iev2 \<Rightarrow> iev2" where
  "set_cr_flag c ie = ie"

definition instance_id :: "iev2 \<Rightarrow> int" where
  "instance_id ie = ie2_flags ie AND 0xf"

definition set_instance :: "int \<Rightarrow> iev2 \<Rightarrow> iev2" where
  "set_instance c ie = ie"

text \<open>
  \<open>IEv2(buf)\<close>: the four header octets (type, 2-octet length, flags), then
  \<open>self.data = self.data[:self.len]\<close>.
\<close>

definition IEv2_unpack :: "bytes \<Rightarrow> error + iev2" where
  "IEv2_unpack buf =
     (if length buf < 4 then Inl NeedData
      else let n = be16 (buf ! 1) (buf ! 2)
           in Inr \<lparr>ie2_type = uint (buf ! 0), ie2_len = int n, ie2_flags = uint (buf ! 3),
                   ie2_data = take n (drop 4 buf)\<rparr>)"

text \<open>\<open>len(ie)\<close>: the inherited header size plus payload length.\<close>

definition IEv2_len :: "iev2 \<Rightarrow> nat" where
  "IEv2_len ie = 4 + length (ie2_data ie)"

text \<open>
  \<open>IEv2.pack_hdr\<close> first stores \<open>len(self.data)\<close> in \<open>self.len\<close>, then packs type,
  length and flags; the updated object is returned with the octets. A value that does
  not fit its field is a pack error.
\<close>

definition IEv2_pack_hdr :: "iev2 \<Rightarrow> error + (bytes \<times> iev2)" where
  "IEv2_pack_hdr ie =
     (let ie' = ie\<lparr>ie2_len := int (length (ie2_data ie))\<rparr>
      in case (pack_B (ie2_type ie'), pack_H (ie2_len ie'), pack_B (ie2_flags ie')) of
           (Inr t, Inr l, Inr f) \<Rightarrow> Inr (t @ l @ f, ie')
         | _ \<Rightarrow> Inl PackError)"

text \<open>\<open>bytes(ie)\<close>: the packed header followed by the payload.\<close>

definition IEv2_bytes :: "iev2 \<Rightarrow> error + (bytes \<times> iev2)" where
  "IEv2_bytes ie =
     (case IEv2_pack_hdr ie of
        Inl e \<Rightarrow> Inl e
      | Inr (h, ie') \<Rightarrow> Inr (h @ ie2_data ie', ie'))"

section \<open>GTPv1 information elements (gtp_c.py, class IEv1)\<close>

text \<open>The static table of the lengths of the TV-form elements, entry by entry.\<close>

definition TV_LEN_DICT :: "int \<Rightarrow> nat option" where
  "TV_LEN_DICT = map_of
     [(0, 0), (1, 1), (2, 8), (3, 6), (4, 4), (5, 4), (8, 1), (9, 28), (11, 1), (12, 3),
      (13, 1), (14, 1), (15, 1), (16, 4), (17, 4), (18, 5), (19, 1), (20, 1), (21, 1),
      (22, 9), (23, 1), (24, 1), (25, 2), (26, 2), (27, 2), (28, 2), (29, 1), (127, 4)]"

text \<open>
  The attribute \<open>len\<close> of an IEv1 is not a header field: it is absent on an element
  built from keyword arguments, \<open>None\<close> after \<open>TV_LEN_DICT.get\<close> misses, and a number
  otherwise.
\<close>

datatype ie1_length = LenAbsent | LenNone | LenInt int

record iev1 =
  ie1_type :: int
  ie1_len :: ie1_length
  ie1_data :: bytes

definition encoding :: "iev1 \<Rightarrow> int" where
  "encoding ie = drop_bit 7 (ie1_type ie) AND 0x1"

text \<open>
  \<open>IEv1(buf)\<close>. The header is the type octet. In the TLV form two length octets are
  read from the payload (a payload shorter than that is a truncated IE) and the payload
  becomes \<open>data[2:2+len]\<close>; in the TV form the length is \<open>TV_LEN_DICT.get(type)\<close> and
  the payload becomes \<open>data[:len]\<close>, which for \<open>None\<close> is the whole of \<open>data\<close>.
\<close>

definition IEv1_unpack :: "bytes \<Rightarrow> error + iev1" where
  "IEv1_unpack buf =
     (if length buf < 1 then Inl NeedData
      else let ie = \<lparr>ie1_type = uint (buf ! 0), ie1_len = LenAbsent, ie1_data = drop 1 buf\<rparr>
           in if encoding ie \<noteq> 0
              then (if length (ie1_data ie) < 2 then Inl (UnpackError [])
                    else let n = be16 (ie1_data ie ! 0) (ie1_data ie ! 1)
                         in Inr (ie\<lparr>ie1_len := LenInt (int n),
                                    ie1_data := slice (ie1_data ie) 2 (2 + n)\<rparr>))
              else (case TV_LEN_DICT (ie1_type ie) of
                      None \<Rightarrow> Inr (ie\<lparr>ie1_len := LenNone, ie1_data := ie1_data ie\<rparr>)
                    | Some n \<Rightarrow> Inr (ie\<lparr>ie1_len := LenInt (int n),
                                        ie1_data := take n (ie1_data ie)\<rparr>)))"

definition IEv1_len :: "iev1 \<Rightarrow> nat" where
  "IEv1_len ie =
     (if encoding ie \<noteq> 0 then 1 + 2 + length (ie1_data ie) else 1 + length (ie1_data ie))"

text \<open>
  \<open>IEv1.pack_hdr\<close>: the type octet and, in the TLV form, \<open>struct.pack('!H', self.len)\<close>,
  which raises outside the inherited handler: \<open>AttributeError\<close> when the attribute is
  absent, \<open>struct.error\<close> when it is \<open>None\<close> or out of range.
\<close>

definition IEv1_pack_hdr :: "iev1 \<Rightarrow> error + bytes" where
  "IEv1_pack_hdr ie =
     (case pack_B (ie1_type ie) of
        Inl e \<Rightarrow> Inl PackError
      | Inr t \<Rightarrow>
          if encoding ie \<noteq> 0
          then (case ie1_len ie of
                  LenAbsent \<Rightarrow> Inl AttributeError
                | LenNone \<Rightarrow> Inl StructError
                | LenInt n \<Rightarrow> (case pack_H n of Inl e \<Rightarrow> Inl e | Inr l \<Rightarrow> Inr (t @ l)))
          else Inr t)"

definition IEv1_bytes :: "iev1 \<Rightarrow> error + bytes" where
  "IEv1_bytes ie =
     (case IEv1_pack_hdr ie of Inl e \<Rightarrow> Inl e | Inr h \<Rightarrow> Inr (h @ ie1_data ie))"


section \<open>DNS name decoding (dns.py, unpack_name)\<close>

text \<open>\<open>b'.'.join(name)\<close>.\<close>

definition join_dot :: "bytes list \<Rightarrow> bytes" where
  "join_dot ls = (case ls of [] \<Rightarrow> [] | l # rest \<Rightarrow> foldl (\<lambda>acc x. acc @ [0x2e] @ x) l rest)"

text \<open>\<open>'%02x' % n\<close> for an octet value.\<close>

definition hex_digit :: "nat \<Rightarrow> char" where
  "hex_digit d = ''0123456789abcdef'' ! d"

definition hex02 :: "nat \<Rightarrow> string" where
  "hex02 n = [hex_digit (n div 16), hex_digit (n mod 16)]"

text \<open>
  The local variables of \<open>unpack_name\<close> at the top of an iteration of its
  \<open>while True\<close> loop: \<open>(off, start_off, saved_off, name, name_length)\<close>. One iteration
  either raises, leaves the loop (\<open>break\<close>) or goes round again with the new values.
  \<open>struct.unpack('>H', buf[off:off + 2])\<close> raises \<open>struct.error\<close> when the slice is
  shorter than two octets; \<open>buf[off:off + n]\<close> is clipped at the end of the buffer.
\<close>

type_synonym un_state = "nat \<times> nat \<times> nat \<times> bytes list \<times> nat"

datatype iteration = Next un_state | Break un_state | Raise error

definition unpack_name_step :: "bytes \<Rightarrow> un_state \<Rightarrow> iteration" where
  "unpack_name_step buf st =
     (case st of (off, start_off, saved_off, name, name_length) \<Rightarrow>
        if off \<ge> length buf then Raise NeedData
        else let n = unat (buf ! off) in
          if n = 0 then Break (off + 1, start_off, saved_off, name, name_length)
          else if n AND 0xc0 = 0xc0 then
            (if length (slice buf off (off + 2)) \<noteq> 2 then Raise StructError
             else let ptr = be16 (buf ! off) (buf ! (off + 1)) AND 0x3fff in
               if ptr \<ge> start_off
               then Raise (UnpackError ''Invalid label compression pointer'')
               else Next (ptr, ptr, (if saved_off = 0 then off + 2 else saved_off),
                          name, name_length))
          else if n AND 0xc0 = 0x00 then
            (let off1 = off + 1;
                 name' = name @ [slice buf off1 (off1 + n)];
                 name_length' = name_length + (n + 1)
             in if name_length' > 255
                then Raise (UnpackError ''name longer than 255 bytes'')
                else Next (off1 + n, start_off, saved_off, name', name_length'))
          else Raise (UnpackError (''Invalid label length '' @ hex02 n)))"

text \<open>
  The loop. It terminates on every input: a pointer jump strictly lowers \<open>start_off\<close>,
  and a label strictly raises \<open>off\<close>, which is below \<open>len(buf)\<close> whenever an iteration
  goes round again.
\<close>

function unpack_name_loop :: "bytes \<Rightarrow> un_state \<Rightarrow> error + un_state" where
  "unpack_name_loop buf st =
     (case unpack_name_step buf st of
        Raise e \<Rightarrow> Inl e
      | Break st' \<Rightarrow> Inr st'
      | Next st' \<Rightarrow> unpack_name_loop buf st')"
  by pat_completeness auto
termination
  apply (relation "measures [\<lambda>(buf, (off, start_off, saved_off, name, name_length)). start_off,
                             \<lambda>(buf, (off, start_off, saved_off, name, name_length)). length buf - off]")
   apply simp
  apply (auto simp: unpack_name_step_def Let_def split: if_splits prod.splits)
  done

declare unpack_name_loop.simps [simp del]

text \<open>
  \<open>unpack_name(buf, off)\<close>. The result is \<open>codecs.decode(b'.'.join(name), 'utf-8')\<close>
  and \<open>saved_off\<close>; the UTF-8 decoder of the standard library is the parameter
  \<open>decode_utf8\<close>, which returns \<open>None\<close> where \<open>codecs.decode\<close> raises.
\<close>

definition unpack_name :: "(bytes \<Rightarrow> 's option) \<Rightarrow> bytes \<Rightarrow> nat \<Rightarrow> error + ('s \<times> nat)" where
  "unpack_name decode_utf8 buf off =
     (case unpack_name_loop buf (off, off, 0, [], 0) of
        Inl e \<Rightarrow> Inl e
      | Inr (off', start_off, saved_off, name, name_length) \<Rightarrow>
          let saved_off' = (if saved_off = 0 then off' else saved_off)
          in case decode_utf8 (join_dot name) of
               None \<Rightarrow> Inl UnicodeError
             | Some s \<Rightarrow> Inr (s, saved_off'))"

text \<open>
  \<open>reach buf s t\<close>: the loop started with the variables \<open>s\<close> is at the top of an
  iteration with the variables \<open>t\<close>.
\<close>

inductive reach :: "bytes \<Rightarrow> un_state \<Rightarrow> un_state \<Rightarrow> bool" for buf :: bytes and s :: un_state where
  reach_start: "reach buf s s"
| reach_next: "reach buf s t \<Longrightarrow> unpack_name_step buf t = Next u \<Longrightarrow> reach buf s u"


text \<open>The buffer of \<open>test_circular_pointers\<close>, and a name of four labels of 63 octets.\<close>

definition circular_pointers :: bytes where
  "circular_pointers =
     [0xc0, 0x00, 0x01, 0x00, 0x00, 0x01, 0x00, 0x00, 0x00, 0x00, 0x00, 0x00,
      0x07, 0x65, 0x78, 0x61, 0x6d, 0x70, 0x6c, 0x65, 0x03, 0x63, 0x6f, 0x6d, 0xc0, 0x00]"



section \<open>DNS name encoding (dns.py, pack_name)\<close>

text \<open>\<open>bytes.upper()\<close>: the ASCII letters a to z become A to Z.\<close>

definition upper :: "bytes \<Rightarrow> bytes" where
  "upper s = map (\<lambda>c. if 0x61 \<le> c \<and> c \<le> 0x7a then c - 0x20 else c) s"

text \<open>\<open>name.split(b'.')\<close>.\<close>

fun split_dot :: "bytes \<Rightarrow> bytes list" where
  "split_dot [] = [[]]"
| "split_dot (c # cs) =
     (if c = 0x2e then [] # split_dot cs
      else (case split_dot cs of [] \<Rightarrow> [[c]] | l # ls \<Rightarrow> (c # l) # ls))"

text \<open>
  The compression table \<open>label_ptrs\<close> is a dictionary from an upper-cased suffix to the
  offset at which it was written. The \<open>for\<close> loop of \<open>pack_name\<close> runs over the
  remaining labels \<open>labels[i:]\<close>, with the output \<open>buf\<close> so far; the name is given
  as the octets that \<open>codecs.encode(name, 'utf-8')\<close> returns. \<open>not ptr\<close> holds when the
  key is missing and when the stored offset is 0. When \<open>struct.pack\<close> raises, the
  entries already added to the dictionary are not part of the result.
\<close>

type_synonym label_table = "bytes \<rightharpoonup> nat"

fun pack_name_for :: "bytes list \<Rightarrow> nat \<Rightarrow> bytes \<Rightarrow> label_table \<Rightarrow> error + (bytes \<times> label_table)" where
  "pack_name_for [] off buf label_ptrs = Inr (buf, label_ptrs)"
| "pack_name_for (label # rest) off buf label_ptrs =
     (let key = upper (join_dot (label # rest)) in
      case (case label_ptrs key of None \<Rightarrow> None | Some p \<Rightarrow> if p = 0 then None else Some p) of
        None \<Rightarrow>
          (let label_ptrs' =
                 (if length key > 1
                  then (let ptr = off + length buf
                        in if ptr < 0xc000 then label_ptrs(key \<mapsto> ptr) else label_ptrs)
                  else label_ptrs)
           in case pack_B (int (length label)) of
                Inl e \<Rightarrow> Inl e
              | Inr i \<Rightarrow> pack_name_for rest off (buf @ i @ label) label_ptrs')
      | Some ptr \<Rightarrow>
          (case pack_H (int (0xc000 OR ptr)) of
             Inl e \<Rightarrow> Inl e
           | Inr p \<Rightarrow> Inr (buf @ p, label_ptrs)))"

definition pack_name :: "bytes \<Rightarrow> nat \<Rightarrow> label_table \<Rightarrow> error + (bytes \<times> label_table)" where
  "pack_name name off label_ptrs =
     (let labels = (if name \<noteq> [] then split_dot name else []) @ [[]]
      in pack_name_for labels off [] label_ptrs)"


section \<open>DNS message encoding (dns.py, DNS.__bytes__)\<close>

text \<open>
  A question and a resource record. Besides its header fields a record carries the
  attributes that \<open>pack_rdata\<close> reads for its type; each may be absent, and reading an
  absent one raises \<open>AttributeError\<close>. Names are the UTF-8 octets of the strings.
\<close>

record dns_q =
  q_name :: bytes
  q_type :: int
  q_cls :: int

text \<open>
  \<open>preference\<close> holds a number on a record built by the caller and the 1-tuple that
  \<open>struct.unpack\<close> returns on a decoded record, which \<open>struct.pack\<close> does not accept.
\<close>

datatype preference = Pref_int int | Pref_tuple int

record dns_rr =
  rr_name :: bytes
  rr_type :: int
  rr_cls :: int
  rr_ttl :: int
  rr_rlen :: int
  rr_rdata :: bytes
  rr_ip :: "bytes option"
  rr_nsname :: "bytes option"
  rr_cname :: "bytes option"
  rr_ptrname :: "bytes option"
  rr_mname :: "bytes option"
  rr_rname :: "bytes option"
  rr_serial :: "int option"
  rr_refresh :: "int option"
  rr_retry :: "int option"
  rr_expire :: "int option"
  rr_minimum :: "int option"
  rr_preference :: "preference option"
  rr_mxname :: "bytes option"
  rr_text :: "bytes list option"
  rr_ip6 :: "bytes option"
  rr_priority :: "int option"
  rr_weight :: "int option"
  rr_port :: "int option"
  rr_srvname :: "bytes option"
  rr_null :: "bytes option"

record dns =
  dns_id :: int
  dns_op :: int
  qd :: "dns_q list"
  an :: "dns_rr list"
  ns :: "dns_rr list"
  ar :: "dns_rr list"

definition DNS_A :: int where "DNS_A = 1"
definition DNS_NS :: int where "DNS_NS = 2"
definition DNS_CNAME :: int where "DNS_CNAME = 5"
definition DNS_SOA :: int where "DNS_SOA = 6"
definition DNS_NULL :: int where "DNS_NULL = 10"
definition DNS_PTR :: int where "DNS_PTR = 12"
definition DNS_HINFO :: int where "DNS_HINFO = 13"
definition DNS_MX :: int where "DNS_MX = 15"
definition DNS_TXT :: int where "DNS_TXT = 16"
definition DNS_AAAA :: int where "DNS_AAAA = 28"
definition DNS_SRV :: int where "DNS_SRV = 33"
definition DNS_OPT :: int where "DNS_OPT = 41"

text \<open>Reading an attribute that may be absent.\<close>

definition attr :: "'a option \<Rightarrow> error + 'a" where
  "attr a = (case a of None \<Rightarrow> Inl AttributeError | Some v \<Rightarrow> Inr v)"

text \<open>
  \<open>struct.pack\<close> of several fields (each given as the packing of one field):
  \<open>struct.error\<close> when any value is out of range.
\<close>

fun pack_fields :: "(error + bytes) list \<Rightarrow> error + bytes" where
  "pack_fields [] = Inr []"
| "pack_fields (f # fs) =
     (case f of
        Inl e \<Rightarrow> Inl StructError
      | Inr b \<Rightarrow> (case pack_fields fs of Inl e \<Rightarrow> Inl e | Inr bs \<Rightarrow> Inr (b @ bs)))"

text \<open>
  \<open>RR.pack_rdata\<close>. In the TXT and HINFO branch, \<open>'%s%s' % (chr(len(x)), x)\<close> is a
  \<open>str\<close>, so \<open>b''.join\<close> of a non-empty list raises \<open>TypeError\<close>; \<open>chr\<close> raises
  \<open>ValueError\<close> beyond 0x10ffff.
\<close>

definition pack_rdata :: "dns_rr \<Rightarrow> nat \<Rightarrow> label_table \<Rightarrow> error + (bytes \<times> label_table)" where
  "pack_rdata rr off label_ptrs =
     (if rr_rdata rr \<noteq> [] then Inr (rr_rdata rr, label_ptrs)
      else if rr_type rr = DNS_A then
        bind (attr (rr_ip rr)) (\<lambda>ip. Inr (ip, label_ptrs))
      else if rr_type rr = DNS_NS then
        bind (attr (rr_nsname rr)) (\<lambda>nsname. pack_name nsname off label_ptrs)
      else if rr_type rr = DNS_CNAME then
        bind (attr (rr_cname rr)) (\<lambda>cname. pack_name cname off label_ptrs)
      else if rr_type rr = DNS_PTR then
        bind (attr (rr_ptrname rr)) (\<lambda>ptrname. pack_name ptrname off label_ptrs)
      else if rr_type rr = DNS_SOA then
        bind (attr (rr_mname rr)) (\<lambda>mname.
        bind (pack_name mname off label_ptrs) (\<lambda>(l0, label_ptrs1).
        bind (attr (rr_rname rr)) (\<lambda>rname.
        bind (pack_name rname (off + length l0) label_ptrs1) (\<lambda>(l1, label_ptrs2).
        bind (attr (rr_serial rr)) (\<lambda>serial.
        bind (attr (rr_refresh rr)) (\<lambda>refresh.
        bind (attr (rr_retry rr)) (\<lambda>retry.
        bind (attr (rr_expire rr)) (\<lambda>expire.
        bind (attr (rr_minimum rr)) (\<lambda>minimum.
        bind (pack_fields [pack_I serial, pack_I refresh, pack_I retry, pack_I expire,
                           pack_I minimum]) (\<lambda>l2.
        Inr (l0 @ l1 @ l2, label_ptrs2)))))))))))
      else if rr_type rr = DNS_MX then
        bind (attr (rr_preference rr)) (\<lambda>preference.
        bind (case preference of Pref_int i \<Rightarrow> pack_H i | Pref_tuple i \<Rightarrow> Inl StructError) (\<lambda>p.
        bind (attr (rr_mxname rr)) (\<lambda>mxname.
        bind (pack_name mxname (off + 2) label_ptrs) (\<lambda>(n, label_ptrs1).
        Inr (p @ n, label_ptrs1)))))
      else if rr_type rr = DNS_TXT \<or> rr_type rr = DNS_HINFO then
        bind (attr (rr_text rr)) (\<lambda>text.
          if list_ex (\<lambda>x. length x > 0x10ffff) text then Inl ValueError
          else if text = [] then Inr ([], label_ptrs)
          else Inl TypeError)
      else if rr_type rr = DNS_AAAA then
        bind (attr (rr_ip6 rr)) (\<lambda>ip6. Inr (ip6, label_ptrs))
      else if rr_type rr = DNS_SRV then
        bind (attr (rr_priority rr)) (\<lambda>priority.
        bind (attr (rr_weight rr)) (\<lambda>weight.
        bind (attr (rr_port rr)) (\<lambda>port.
        bind (pack_fields [pack_H priority, pack_H weight, pack_H port]) (\<lambda>p.
        bind (attr (rr_srvname rr)) (\<lambda>srvname.
        bind (pack_name srvname (off + 6) label_ptrs) (\<lambda>(n, label_ptrs1).
        Inr (p @ n, label_ptrs1)))))))
      else if rr_type rr = DNS_OPT then Inr ([], label_ptrs)
      else Inl PackError)"

definition pack_q :: "bytes \<Rightarrow> label_table \<Rightarrow> dns_q \<Rightarrow> error + (bytes \<times> label_table)" where
  "pack_q buf label_ptrs q =
     bind (pack_name (q_name q) (length buf) label_ptrs) (\<lambda>(name, label_ptrs1).
     bind (pack_fields [pack_H (q_type q), pack_H (q_cls q)]) (\<lambda>tc.
     Inr (buf @ name @ tc, label_ptrs1)))"

definition pack_rr :: "bytes \<Rightarrow> label_table \<Rightarrow> dns_rr \<Rightarrow> error + (bytes \<times> label_table)" where
  "pack_rr buf label_ptrs rr =
     bind (pack_name (rr_name rr) (length buf) label_ptrs) (\<lambda>(name, label_ptrs1).
     bind (pack_rdata rr (length buf + length name + 10) label_ptrs1) (\<lambda>(rdata, label_ptrs2).
     bind (pack_fields [pack_H (rr_type rr), pack_H (rr_cls rr), pack_I (rr_ttl rr),
                        pack_H (int (length rdata))]) (\<lambda>h.
     Inr (buf @ name @ h @ rdata, label_ptrs2))))"

text \<open>The \<open>for\<close> loops of \<open>__bytes__\<close>: \<open>buf = self.pack_q(buf, q)\<close> for each element.\<close>

fun pack_all :: "(bytes \<Rightarrow> label_table \<Rightarrow> 'a \<Rightarrow> error + (bytes \<times> label_table)) \<Rightarrow>
                 'a list \<Rightarrow> bytes \<Rightarrow> label_table \<Rightarrow> error + (bytes \<times> label_table)" where
  "pack_all f [] buf label_ptrs = Inr (buf, label_ptrs)"
| "pack_all f (x # xs) buf label_ptrs =
     (case f buf label_ptrs x of
        Inl e \<Rightarrow> Inl e
      | Inr (buf', label_ptrs') \<Rightarrow> pack_all f xs buf' label_ptrs')"

text \<open>
  \<open>DNS.__bytes__\<close>: a fresh table, the header packed from \<open>id\<close>, \<open>op\<close> and the
  lengths of the four lists, then the questions and the three record sections.
\<close>

definition DNS_bytes :: "dns \<Rightarrow> error + bytes" where
  "DNS_bytes m =
     bind (pack_fields [pack_H (dns_id m), pack_H (dns_op m), pack_H (int (length (qd m))),
                        pack_H (int (length (an m))), pack_H (int (length (ns m))),
                        pack_H (int (length (ar m)))]) (\<lambda>buf.
     bind (pack_all pack_q (qd m) buf Map.empty) (\<lambda>(buf, label_ptrs).
     bind (pack_all pack_rr (an m) buf label_ptrs) (\<lambda>(buf, label_ptrs).
     bind (pack_all pack_rr (ns m) buf label_ptrs) (\<lambda>(buf, label_ptrs).
     bind (pack_all pack_rr (ar m) buf label_ptrs) (\<lambda>(buf, label_ptrs).
     Inr buf)))))"

section \<open>DNS message decoding (dns.py, DNS.unpack)\<close>

text \<open>
  \<open>struct.unpack\<close> of an unsigned big-endian field: the number that a run of octets
  holds. The callers check the length of the run, which \<open>struct.unpack\<close> requires to be
  exact.
\<close>

definition be_int :: "bytes \<Rightarrow> int" where
  "be_int bs = foldl (\<lambda>a b. a * 256 + uint b) 0 bs"

text \<open>\<open>RR()\<close>: the header defaults and none of the attributes of \<open>unpack_rdata\<close>.\<close>

definition RR_default :: dns_rr where
  "RR_default = \<lparr>rr_name = [], rr_type = DNS_A, rr_cls = 1, rr_ttl = 0, rr_rlen = 4, rr_rdata = [],
     rr_ip = None, rr_nsname = None, rr_cname = None, rr_ptrname = None, rr_mname = None,
     rr_rname = None, rr_serial = None, rr_refresh = None, rr_retry = None, rr_expire = None,
     rr_minimum = None, rr_preference = None, rr_mxname = None, rr_text = None, rr_ip6 = None,
     rr_priority = None, rr_weight = None, rr_port = None, rr_srvname = None, rr_null = None\<rparr>"

text \<open>
  The loop of the TXT and HINFO branch: \<open>while buf: n = buf[0];
  text.append(codecs.decode(buf[1:1 + n], 'utf-8')); buf = buf[1 + n:]\<close>. A decoded
  string is shown as its UTF-8 octets.
\<close>

function unpack_text :: "(bytes \<Rightarrow> bytes option) \<Rightarrow> bytes \<Rightarrow> error + bytes list" where
  "unpack_text dec buf =
     (if buf = [] then Inr []
      else let n = unat (hd buf) in
        case dec (slice buf 1 (1 + n)) of
          None \<Rightarrow> Inl UnicodeError
        | Some s \<Rightarrow> (case unpack_text dec (drop (1 + n) buf) of
                      Inl e \<Rightarrow> Inl e
                    | Inr rest \<Rightarrow> Inr (s # rest)))"
  by pat_completeness auto
termination
  by (relation "measure (\<lambda>(dec, buf). length buf)") auto

declare unpack_text.simps [simp del]

text \<open>\<open>codecs.encode(rdata, 'hex')\<close>: two lower-case hexadecimal digits for each octet.\<close>

definition hex_octet :: "nat \<Rightarrow> byte" where
  "hex_octet d = (if d < 10 then 0x30 + of_nat d else 0x57 + of_nat d)"

definition hex_encode :: "bytes \<Rightarrow> bytes" where
  "hex_encode bs = concat (map (\<lambda>b. [hex_octet (unat b div 16), hex_octet (unat b mod 16)]) bs)"

text \<open>\<open>'%s' % n\<close> for a number that is not negative.\<close>

fun decimal :: "nat \<Rightarrow> string" where
  "decimal n = (if n < 10 then [hex_digit n] else decimal (n div 10) @ [hex_digit (n mod 10)])"

declare decimal.simps [simp del]

text \<open>
  \<open>RR.unpack_rdata(buf, off)\<close>, returning the record with the attributes of its type
  set. \<open>struct.unpack\<close> raises \<open>struct.error\<close> on a slice shorter than its format;
  in the MX branch the attribute \<open>preference\<close> receives the 1-tuple that
  \<open>struct.unpack\<close> returns.
\<close>

definition unpack_rdata :: "(bytes \<Rightarrow> bytes option) \<Rightarrow> dns_rr \<Rightarrow> bytes \<Rightarrow> nat \<Rightarrow> error + dns_rr" where
  "unpack_rdata dec rr buf off =
     (if rr_type rr = DNS_A then Inr (rr\<lparr>rr_ip := Some (rr_rdata rr)\<rparr>)
      else if rr_type rr = DNS_NS then
        bind (unpack_name dec buf off) (\<lambda>(nsname, off1). Inr (rr\<lparr>rr_nsname := Some nsname\<rparr>))
      else if rr_type rr = DNS_CNAME then
        bind (unpack_name dec buf off) (\<lambda>(cname, off1). Inr (rr\<lparr>rr_cname := Some cname\<rparr>))
      else if rr_type rr = DNS_PTR then
        bind (unpack_name dec buf off) (\<lambda>(ptrname, off1). Inr (rr\<lparr>rr_ptrname := Some ptrname\<rparr>))
      else if rr_type rr = DNS_SOA then
        bind (unpack_name dec buf off) (\<lambda>(mname, off1).
        bind (unpack_name dec buf off1) (\<lambda>(rname, off2).
          let f = slice buf off2 (off2 + 20)
          in if length f \<noteq> 20 then Inl StructError
             else Inr (rr\<lparr>rr_mname := Some mname, rr_rname := Some rname,
                          rr_serial := Some (be_int (slice f 0 4)),
                          rr_refresh := Some (be_int (slice f 4 8)),
                          rr_retry := Some (be_int (slice f 8 12)),
                          rr_expire := Some (be_int (slice f 12 16)),
                          rr_minimum := Some (be_int (slice f 16 20))\<rparr>)))
      else if rr_type rr = DNS_MX then
        (let p = take 2 (rr_rdata rr)
         in if length p \<noteq> 2 then Inl StructError
            else bind (unpack_name dec buf (off + 2)) (\<lambda>(mxname, off1).
                   Inr (rr\<lparr>rr_preference := Some (Pref_tuple (be_int p)),
                            rr_mxname := Some mxname\<rparr>)))
      else if rr_type rr = DNS_TXT \<or> rr_type rr = DNS_HINFO then
        bind (unpack_text dec (rr_rdata rr)) (\<lambda>t. Inr (rr\<lparr>rr_text := Some t\<rparr>))
      else if rr_type rr = DNS_AAAA then Inr (rr\<lparr>rr_ip6 := Some (rr_rdata rr)\<rparr>)
      else if rr_type rr = DNS_NULL then Inr (rr\<lparr>rr_null := Some (hex_encode (rr_rdata rr))\<rparr>)
      else if rr_type rr = DNS_SRV then
        (let p = take 6 (rr_rdata rr)
         in if length p \<noteq> 6 then Inl StructError
            else bind (unpack_name dec buf (off + 6)) (\<lambda>(srvname, off1).
                   Inr (rr\<lparr>rr_priority := Some (be_int (slice p 0 2)),
                            rr_weight := Some (be_int (slice p 2 4)),
                            rr_port := Some (be_int (slice p 4 6)),
                            rr_srvname := Some srvname\<rparr>)))
      else if rr_type rr = DNS_OPT then Inr rr
      else Inl (UnpackError (''RR type '' @ decimal (nat (rr_type rr)) @ '' is not supported'')))"

text \<open>\<open>DNS.unpack_q\<close> and \<open>DNS.unpack_rr\<close>: the element and the offset after it.\<close>

definition unpack_q :: "(bytes \<Rightarrow> bytes option) \<Rightarrow> bytes \<Rightarrow> nat \<Rightarrow> error + (dns_q \<times> nat)" where
  "unpack_q dec buf off =
     bind (unpack_name dec buf off) (\<lambda>(name, off1).
       let f = slice buf off1 (off1 + 4)
       in if length f \<noteq> 4 then Inl StructError
          else Inr (\<lparr>q_name = name, q_type = be_int (slice f 0 2), q_cls = be_int (slice f 2 4)\<rparr>,
                    off1 + 4))"

definition unpack_rr :: "(bytes \<Rightarrow> bytes option) \<Rightarrow> bytes \<Rightarrow> nat \<Rightarrow> error + (dns_rr \<times> nat)" where
  "unpack_rr dec buf off =
     bind (unpack_name dec buf off) (\<lambda>(name, off1).
       let f = slice buf off1 (off1 + 10)
       in if length f \<noteq> 10 then Inl StructError
          else
            let rdlen = nat (be_int (slice f 8 10));
                off2 = off1 + 10;
                rr = RR_default\<lparr>rr_name := name, rr_type := be_int (slice f 0 2),
                                 rr_cls := be_int (slice f 2 4), rr_ttl := be_int (slice f 4 8),
                                 rr_rdata := slice buf off2 (off2 + rdlen), rr_rlen := int rdlen\<rparr>
            in bind (unpack_rdata dec rr buf off2) (\<lambda>rr'. Inr (rr', off2 + rdlen)))"

text \<open>The loop \<open>for _ in range(cnt): x, off = unpack(buf, off); l.append(x)\<close>.\<close>

fun unpack_n :: "(bytes \<Rightarrow> nat \<Rightarrow> error + ('a \<times> nat)) \<Rightarrow> nat \<Rightarrow> bytes \<Rightarrow> nat \<Rightarrow> error + ('a list \<times> nat)" where
  "unpack_n f 0 buf off = Inr ([], off)"
| "unpack_n f (Suc cnt) buf off =
     (case f buf off of
        Inl e \<Rightarrow> Inl e
      | Inr (x, off1) \<Rightarrow>
          (case unpack_n f cnt buf off1 of
             Inl e \<Rightarrow> Inl e
           | Inr (xs, off2) \<Rightarrow> Inr (x # xs, off2)))"

text \<open>
  \<open>DNS.unpack(buf)\<close>: the inherited decoding of the six 2-octet header fields (which
  needs twelve octets), then as many questions and records of each section as the header
  counts say, starting at offset 12. A \<open>struct.error\<close> raised while a question or a
  record is read is shown as such.
\<close>

definition DNS_unpack :: "(bytes \<Rightarrow> bytes option) \<Rightarrow> bytes \<Rightarrow> error + dns" where
  "DNS_unpack dec buf =
     (if length buf < 12 then Inl NeedData
      else
        bind (unpack_n (unpack_q dec) (nat (be_int (slice buf 4 6))) buf 12) (\<lambda>(qd', off1).
        bind (unpack_n (unpack_rr dec) (nat (be_int (slice buf 6 8))) buf off1) (\<lambda>(an', off2).
        bind (unpack_n (unpack_rr dec) (nat (be_int (slice buf 8 10))) buf off2) (\<lambda>(ns', off3).
        bind (unpack_n (unpack_rr dec) (nat (be_int (slice buf 10 12))) buf off3) (\<lambda>(ar', off4).
        Inr \<lparr>dns_id = be_int (slice buf 0 2), dns_op = be_int (slice buf 2 4),
             qd = qd', an = an', ns = ns', ar = ar'\<rparr>)))))"

text \<open>
  The query of \<open>test_basic\<close>, as a message and as octets, and an IE with a value of
  eight octets.
\<close>

definition www_cnn_com_octets :: bytes where
  "www_cnn_com_octets =
     [0x05, 0xf5, 0x01, 0x00, 0x00, 0x01, 0x00, 0x00, 0x00, 0x00, 0x00, 0x00,
      0x03, 0x77, 0x77, 0x77, 0x03, 0x63, 0x6e, 0x6e, 0x03, 0x63, 0x6f, 0x6d, 0x00,
      0x00, 0x01, 0x00, 0x01]"

definition www_cnn_com :: dns where
  "www_cnn_com = \<lparr>dns_id = 0x05f5, dns_op = 0x0100,
      qd = [\<lparr>q_name = [0x77, 0x77, 0x77, 0x2e, 0x63, 0x6e, 0x6e, 0x2e, 0x63, 0x6f, 0x6d], q_type = 1, q_cls = 1\<rparr>],
      an = [], ns = [], ar = []\<rparr>"



definition imsi_ie :: iev2 where
  "imsi_ie = IEv2_default\<lparr>ie2_type := 1, ie2_data := replicate 8 0xaa\<rparr>"


section \<open>GTPv2-C messages (gtp_c.py, class GTPv2C)\<close>

text \<open>
  The attributes \<open>seqnum\<close>, \<open>teid\<close>, \<open>npdu\<close> and \<open>next_type\<close> of a message are not
  header fields: each may be absent, and holds a number or, after \<open>pack_hdr\<close>, a byte
  string. The attribute \<open>data\<close> holds the payload octets or the list of IEs.
\<close>

datatype pyval = PInt int | PBytes bytes

datatype 'ie payload = Payload_bytes bytes | Payload_list "'ie list"

text \<open>
  Reading such an attribute for arithmetic (\<open>self.seqnum >> 16\<close>): \<open>AttributeError\<close>
  when it is absent, \<open>TypeError\<close> when it holds a byte string.
\<close>

definition int_attr :: "pyval option \<Rightarrow> error + int" where
  "int_attr a =
     (case a of None \<Rightarrow> Inl AttributeError | Some (PInt i) \<Rightarrow> Inr i | Some (PBytes b) \<Rightarrow> Inl TypeError)"

text \<open>\<open>struct.pack('B', v & 0xff)\<close> and the packings of two, three and four such octets.\<close>

definition octet :: "int \<Rightarrow> byte" where
  "octet v = word_of_int (v AND 0xff)"

definition pack_2B :: "int \<Rightarrow> bytes" where
  "pack_2B v = [octet (drop_bit 8 v), octet v]"

definition pack_3B :: "int \<Rightarrow> bytes" where
  "pack_3B v = [octet (drop_bit 16 v), octet (drop_bit 8 v), octet v]"

definition pack_4B :: "int \<Rightarrow> bytes" where
  "pack_4B v = [octet (drop_bit 24 v), octet (drop_bit 16 v), octet (drop_bit 8 v), octet v]"

text \<open>
  \<open>b''.join([bytes(d) for d in l])\<close>. IEs are values here: \<open>bytes(d)\<close> of an IEv2 also
  stores \<open>len(d.data)\<close> in \<open>d.len\<close> (see \<open>IEv2_pack_hdr\<close>); at the level of a message
  only the octets are used.
\<close>

fun join_bytes :: "('a \<Rightarrow> error + bytes) \<Rightarrow> 'a list \<Rightarrow> error + bytes" where
  "join_bytes f [] = Inr []"
| "join_bytes f (x # xs) =
     (case f x of
        Inl e \<Rightarrow> Inl e
      | Inr b \<Rightarrow> (case join_bytes f xs of Inl e \<Rightarrow> Inl e | Inr bs \<Rightarrow> Inr (b @ bs)))"

definition IEv2_octets :: "iev2 \<Rightarrow> error + bytes" where
  "IEv2_octets ie = (case IEv2_bytes ie of Inl e \<Rightarrow> Inl e | Inr (b, ie') \<Rightarrow> Inr b)"

text \<open>
  The loop \<open>while self.data: ie = IEv2(self.data); l.append(ie); self.data =
  self.data[len(ie):]\<close>, and the same for IEv1. Every IE is at least one octet long, so
  the loop terminates.
\<close>

function parse_ies_v2 :: "bytes \<Rightarrow> error + iev2 list" where
  "parse_ies_v2 data =
     (if data = [] then Inr []
      else case IEv2_unpack data of
             Inl e \<Rightarrow> Inl e
           | Inr ie \<Rightarrow>
               (case parse_ies_v2 (drop (IEv2_len ie) data) of
                  Inl e \<Rightarrow> Inl e
                | Inr l \<Rightarrow> Inr (ie # l)))"
  by pat_completeness auto
termination
  by (relation "measure length") (auto simp: IEv2_len_def)

declare parse_ies_v2.simps [simp del]

function parse_ies_v1 :: "bytes \<Rightarrow> error + iev1 list" where
  "parse_ies_v1 data =
     (if data = [] then Inr []
      else case IEv1_unpack data of
             Inl e \<Rightarrow> Inl e
           | Inr ie \<Rightarrow>
               (case parse_ies_v1 (drop (IEv1_len ie) data) of
                  Inl e \<Rightarrow> Inl e
                | Inr l \<Rightarrow> Inr (ie # l)))"
  by pat_completeness auto
termination
  by (relation "measure length") (auto simp: IEv1_len_def)

declare parse_ies_v1.simps [simp del]

text \<open>
  A message: the header fields, the attributes that \<open>unpack\<close> or the caller set, the
  payload \<open>data\<close>, and the attribute \<open>ies\<close>, which only \<open>unpack\<close> sets.
\<close>

record gtpv2c =
  v2_flags :: int
  v2_type :: int
  v2_len :: int
  v2_teid :: "pyval option"
  v2_seqnum :: "pyval option"
  v2_priority :: "int option"
  v2_data :: "iev2 payload"
  v2_ies :: "iev2 list option"

definition t_flag :: "gtpv2c \<Rightarrow> int" where
  "t_flag m = drop_bit 3 (v2_flags m) AND 0x1"

text \<open>
  \<open>GTPv2C(buf)\<close>: the four header octets, then \<open>GTPv2C.unpack\<close>. With the T flag
  set, indexing \<open>self.data[0]\<close> to \<open>self.data[7]\<close> raises \<open>IndexError\<close> on a payload
  shorter than eight octets. With the T flag clear the code is
  \<open>self.seqnum = self.data[:3]; self.data = self.data[5:]\<close>.
\<close>

definition GTPv2C_unpack :: "bytes \<Rightarrow> error + gtpv2c" where
  "GTPv2C_unpack buf =
     (if length buf < 4 then Inl NeedData
      else
        let data = drop 4 buf;
            m = \<lparr>v2_flags = uint (buf ! 0), v2_type = uint (buf ! 1),
                 v2_len = int (be16 (buf ! 2) (buf ! 3)),
                 v2_teid = None, v2_seqnum = None, v2_priority = None,
                 v2_data = Payload_bytes data, v2_ies = None\<rparr>
        in bind
             (if t_flag m \<noteq> 0
              then (if length data < 8 then Inl IndexError
                    else Inr (m\<lparr>v2_teid := Some (PInt
                                   (push_bit 24 (uint (data ! 0)) OR push_bit 16 (uint (data ! 1))
                                    OR push_bit 8 (uint (data ! 2)) OR uint (data ! 3))),
                                 v2_seqnum := Some (PInt
                                   (push_bit 16 (uint (data ! 4)) OR push_bit 8 (uint (data ! 5))
                                    OR uint (data ! 6))),
                                 v2_priority := Some (drop_bit 4 (uint (data ! 7)) AND 0xf)\<rparr>,
                              drop 8 data))
              else Inr (m\<lparr>v2_seqnum := Some (PBytes (take 3 data))\<rparr>, drop 5 data))
             (\<lambda>(m, data).
                bind (parse_ies_v2 data)
                  (\<lambda>l. Inr (m\<lparr>v2_data := Payload_list l, v2_ies := Some l\<rparr>))))"

text \<open>The inherited \<open>pack_hdr\<close>: flags, type and length; a pack error when a value does not fit.\<close>

definition Packet_pack_hdr_v2 :: "gtpv2c \<Rightarrow> error + bytes" where
  "Packet_pack_hdr_v2 m =
     (case pack_fields [pack_B (v2_flags m), pack_B (v2_type m), pack_H (v2_len m)] of
        Inl e \<Rightarrow> Inl PackError
      | Inr h \<Rightarrow> Inr h)"

text \<open>
  \<open>GTPv2C.pack_hdr\<close>, returning the header octets and the message as the call leaves
  it. When the call raises, the partly updated message is not part of the result.
\<close>

definition GTPv2C_pack_hdr :: "gtpv2c \<Rightarrow> error + (bytes \<times> gtpv2c)" where
  "GTPv2C_pack_hdr m =
     (case v2_data m of
        Payload_bytes d \<Rightarrow> bind (Packet_pack_hdr_v2 m) (\<lambda>h. Inr (h, m))
      | Payload_list l \<Rightarrow>
          bind (join_bytes IEv2_octets l) (\<lambda>data.
          bind (int_attr (v2_seqnum m)) (\<lambda>sn.
            let seqnum = pack_3B sn;
                m = m\<lparr>v2_seqnum := Some (PBytes seqnum)\<rparr>;
                data = seqnum @ [0x00] @ data
            in bind
                 (if t_flag m \<noteq> 0
                  then bind (int_attr (v2_teid m)) (\<lambda>t.
                         let teid = pack_4B t
                         in Inr (m\<lparr>v2_teid := Some (PBytes teid)\<rparr>, teid @ data))
                  else Inr (m, data))
                 (\<lambda>(m, data).
                    let m = m\<lparr>v2_data := Payload_bytes data, v2_len := int (length data)\<rparr>
                    in bind (Packet_pack_hdr_v2 m) (\<lambda>h. Inr (h, m))))))"

text \<open>
  \<open>GTPv2C.__bytes__\<close>: the octets of the elements of \<open>self.ies\<close>, then
  \<open>self.pack_hdr() + b''.join(ie_bytes)\<close>.
\<close>

definition GTPv2C_bytes :: "gtpv2c \<Rightarrow> error + (bytes \<times> gtpv2c)" where
  "GTPv2C_bytes m =
     bind (attr (v2_ies m)) (\<lambda>ies.
     bind (join_bytes IEv2_octets ies) (\<lambda>ie_bytes.
     bind (GTPv2C_pack_hdr m) (\<lambda>(h, m'). Inr (h @ ie_bytes, m'))))"

section \<open>GTPv1-C messages (gtp_c.py, class GTPv1C)\<close>

record gtpv1c =
  v1_flags :: int
  v1_type :: int
  v1_len :: int
  v1_teid :: int
  v1_seqnum :: "pyval option"
  v1_npdu :: "pyval option"
  v1_next_type :: "pyval option"
  v1_data :: "iev1 payload"
  v1_ies :: "iev1 list option"

text \<open>The property \<open>__additionals\<close>: the E, S and PN flags together.\<close>

definition additionals :: "gtpv1c \<Rightarrow> int" where
  "additionals m = v1_flags m AND 0x7"

text \<open>
  \<open>GTPv1C(buf)\<close>: the eight header octets (flags, type, length, TEID), then
  \<open>GTPv1C.unpack\<close>: when one of the three flags is set, the sequence number, the N-PDU
  number and the next extension header type are read from \<open>self.data[0]\<close> to
  \<open>self.data[3]\<close> (\<open>IndexError\<close> on a shorter payload); then the IE loop.
\<close>

definition GTPv1C_unpack :: "bytes \<Rightarrow> error + gtpv1c" where
  "GTPv1C_unpack buf =
     (if length buf < 8 then Inl NeedData
      else
        let data = drop 8 buf;
            m = \<lparr>v1_flags = uint (buf ! 0), v1_type = uint (buf ! 1),
                 v1_len = int (be16 (buf ! 2) (buf ! 3)),
                 v1_teid = push_bit 24 (uint (buf ! 4)) OR push_bit 16 (uint (buf ! 5))
                           OR push_bit 8 (uint (buf ! 6)) OR uint (buf ! 7),
                 v1_seqnum = None, v1_npdu = None, v1_next_type = None,
                 v1_data = Payload_bytes data, v1_ies = None\<rparr>
        in bind
             (if additionals m \<noteq> 0
              then (if length data < 4 then Inl IndexError
                    else Inr (m\<lparr>v1_seqnum := Some (PInt
                                   (push_bit 8 (uint (data ! 0)) OR uint (data ! 1))),
                                 v1_npdu := Some (PInt (uint (data ! 2))),
                                 v1_next_type := Some (PInt (uint (data ! 3)))\<rparr>,
                              drop 4 data))
              else Inr (m, data))
             (\<lambda>(m, data).
                bind (parse_ies_v1 data)
                  (\<lambda>l. Inr (m\<lparr>v1_data := Payload_list l, v1_ies := Some l\<rparr>))))"

text \<open>The inherited \<open>pack_hdr\<close>: flags, type, length and TEID.\<close>

definition Packet_pack_hdr_v1 :: "gtpv1c \<Rightarrow> error + bytes" where
  "Packet_pack_hdr_v1 m =
     (case pack_fields [pack_B (v1_flags m), pack_B (v1_type m), pack_H (v1_len m),
                        pack_I (v1_teid m)] of
        Inl e \<Rightarrow> Inl PackError
      | Inr h \<Rightarrow> Inr h)"

text \<open>
  \<open>GTPv1C.pack_hdr\<close>, returning the header octets and the message as the call leaves
  it. The IE list is serialized a second time for \<open>self.data\<close>, as in the source.
\<close>

definition GTPv1C_pack_hdr :: "gtpv1c \<Rightarrow> error + (bytes \<times> gtpv1c)" where
  "GTPv1C_pack_hdr m =
     (case v1_data m of
        Payload_bytes d \<Rightarrow> bind (Packet_pack_hdr_v1 m) (\<lambda>h. Inr (h, m))
      | Payload_list l \<Rightarrow>
          bind (join_bytes IEv1_bytes l) (\<lambda>data.
          bind
            (if additionals m \<noteq> 0
             then bind (int_attr (v1_seqnum m)) (\<lambda>sn.
                  bind (int_attr (v1_npdu m)) (\<lambda>np.
                  bind (int_attr (v1_next_type m)) (\<lambda>nt.
                    Inr (m\<lparr>v1_seqnum := Some (PBytes (pack_2B sn)),
                            v1_npdu := Some (PBytes [octet np]),
                            v1_next_type := Some (PBytes [octet nt])\<rparr>,
                         pack_2B sn, [octet np], [octet nt]))))
             else Inr (m\<lparr>v1_seqnum := Some (PBytes []), v1_npdu := Some (PBytes []),
                          v1_next_type := Some (PBytes [])\<rparr>, [], [], []))
            (\<lambda>(m, seqnum, npdu, next_type).
               bind (join_bytes IEv1_bytes l) (\<lambda>joined.
                 let m = m\<lparr>v1_data := Payload_bytes (seqnum @ npdu @ next_type @ joined)\<rparr>;
                     m = m\<lparr>v1_len := int (length (seqnum @ npdu @ next_type @ joined))\<rparr>
                 in bind (Packet_pack_hdr_v1 m) (\<lambda>h. Inr (h, m))))))"

text \<open>\<open>GTPv1C.__bytes__\<close>, as for GTPv2-C.\<close>

definition GTPv1C_bytes :: "gtpv1c \<Rightarrow> error + (bytes \<times> gtpv1c)" where
  "GTPv1C_bytes m =
     bind (attr (v1_ies m)) (\<lambda>ies.
     bind (join_bytes IEv1_bytes ies) (\<lambda>ie_bytes.
     bind (GTPv1C_pack_hdr m) (\<lambda>(h, m'). Inr (h @ ie_bytes, m'))))"

section \<open>Example messages\<close>

text \<open>
  A GTPv2-C Echo Response without TEID (sequence number 1, one Recovery IE with value 7)
  as octets and as the factory builds it; the same response with TEID 16 and sequence
  number 10, as octets and as decoded; a GTPv1-C request with sequence number, as octets
  and as decoded.
\<close>

definition echo_res_no_teid :: bytes where
  "echo_res_no_teid = [0x40, 0x02, 0x00, 0x09, 0x00, 0x00, 0x01, 0x00, 0x03, 0x00, 0x01, 0x00, 0x07]"


definition echo_res_msg :: gtpv2c where
  "echo_res_msg = \<lparr>v2_flags = 0x40, v2_type = 2, v2_len = 0, v2_teid = None,
      v2_seqnum = Some (PInt 1), v2_priority = None,
      v2_data = Payload_list [IEv2_default\<lparr>ie2_type := 3, ie2_data := [0x07]\<rparr>],
      v2_ies = None\<rparr>"




definition pdp_req :: bytes where
  "pdp_req = [0x32, 0x10, 0x00, 0x06, 0x00, 0x00, 0x00, 0x10, 0x00, 0x0a, 0xca, 0xfe, 0x0e, 0x05]"

definition pdp_req_decoded :: gtpv1c where
  "pdp_req_decoded = \<lparr>v1_flags = 0x32, v1_type = 16, v1_len = 6, v1_teid = 16,
      v1_seqnum = Some (PInt 10), v1_npdu = Some (PInt 0xca), v1_next_type = Some (PInt 0xfe),
      v1_data = Payload_list [\<lparr>ie1_type = 14, ie1_len = LenInt 1, ie1_data = [0x05]\<rparr>],
      v1_ies = Some [\<lparr>ie1_type = 14, ie1_len = LenInt 1, ie1_data = [0x05]\<rparr>]\<rparr>"


section \<open>The F-TEID sub-codec\<close>

text \<open>
  Modelled from the spec: \<open>encode_fteid\<close> and \<open>decode_fteid\<close>, which the factory and
  the tests import from \<open>gtp_c\<close>, are not defined in the source files. From the spec
  (3 and 4.7): the value is one flags octet (bit 7 = IPv4 present, bit 6 = IPv6 present,
  bits 5 to 0 = the interface-type code), the 4-octet big-endian TEID, then the optional
  4 octets of an IPv4 address and the optional 16 octets of an IPv6 address, in that
  order. Encoding fails with a value error when neither address is supplied. Decoding
  fails when fewer than 5 octets are present, or when the octets of a flagged address
  family are not all present in the remaining buffer. The TEID is a 32-bit value and
  the interface-type code a 6-bit value; an address is given by its octets (the
  conversion from and to its text form is not part of the model). In the decoded value
  an address family that is not flagged is absent.
\<close>

record fteid =
  ft_teid :: "32 word"
  ft_interface_type :: "6 word"
  ft_ipv4 :: "bytes option"
  ft_ipv6 :: "bytes option"

text \<open>The big-endian octets of a TEID and the TEID of four octets.\<close>

definition teid_octets :: "32 word \<Rightarrow> bytes" where
  "teid_octets t = [ucast (drop_bit 24 t), ucast (drop_bit 16 t), ucast (drop_bit 8 t), ucast t]"

definition octets_teid :: "byte \<Rightarrow> byte \<Rightarrow> byte \<Rightarrow> byte \<Rightarrow> 32 word" where
  "octets_teid a b c d = push_bit 24 (ucast a) OR push_bit 16 (ucast b) OR push_bit 8 (ucast c) OR ucast d"

definition encode_fteid :: "32 word \<Rightarrow> 6 word \<Rightarrow> bytes option \<Rightarrow> bytes option \<Rightarrow> error + bytes" where
  "encode_fteid teid interface_type ipv4 ipv6 =
     (if ipv4 = None \<and> ipv6 = None then Inl ValueError
      else
        let flags = (if ipv4 \<noteq> None then 0x80 else 0) OR (if ipv6 \<noteq> None then 0x40 else 0)
                    OR ucast interface_type
        in Inr ([flags] @ teid_octets teid
                @ (case ipv4 of None \<Rightarrow> [] | Some a \<Rightarrow> a)
                @ (case ipv6 of None \<Rightarrow> [] | Some a \<Rightarrow> a)))"

definition decode_fteid :: "bytes \<Rightarrow> error + fteid" where
  "decode_fteid buf =
     (if length buf < 5 then Inl (UnpackError [])
      else
        let flags = buf ! 0;
            r = \<lparr>ft_teid = octets_teid (buf ! 1) (buf ! 2) (buf ! 3) (buf ! 4),
                 ft_interface_type = ucast (flags AND 0x3f), ft_ipv4 = None, ft_ipv6 = None\<rparr>;
            rest = drop 5 buf
        in bind
             (if flags AND 0x80 \<noteq> 0
              then (if length rest < 4 then Inl (UnpackError [])
                    else Inr (r\<lparr>ft_ipv4 := Some (take 4 rest)\<rparr>, drop 4 rest))
              else Inr (r, rest))
             (\<lambda>(r, rest).
                if flags AND 0x40 \<noteq> 0
                then (if length rest < 16 then Inl (UnpackError [])
                      else Inr (r\<lparr>ft_ipv6 := Some (take 16 rest)\<rparr>))
                else Inr r))"

section \<open>Bit-field lemmas\<close>











section \<open>Properties of the information elements\<close>

text \<open>
  C5. The claim is that setting the CR-flag or the instance of a GTPv2 IE stores the
  value in its half of the flags octet. Both setters of the class have the body
  \<open>pass\<close>: they leave the object unchanged, so on the element of the module's test
  (\<open>IEv2(type=1, instance=0, data=b'\x00')\<close>) the CR flag still reads 0 after
  \<open>ie.cr_flag = 3\<close> and the instance still reads 0 after \<open>ie.instance = 5\<close>.
\<close>

theorem iev2_flag_setters_do_nothing:
  "set_cr_flag c ie = ie \<and> set_instance c ie = ie
   \<and> cr_flag (set_cr_flag 3 (IEv2_default\<lparr>ie2_type := 1, ie2_data := [0]\<rparr>)) = 0
   \<and> instance_id (set_instance 5 (IEv2_default\<lparr>ie2_type := 1, ie2_data := [0]\<rparr>)) = 0"
  by (simp add: set_cr_flag_def set_instance_def cr_flag_def instance_id_def IEv2_default_def)

text \<open>
  C4. The claim is that decoding a TV-form GTPv1 IE whose type is not a key of the
  length table fails. \<open>TV_LEN_DICT.get\<close> returns \<open>None\<close> there and \<open>data[:None]\<close> is
  the whole payload, so decoding returns an element: for every buffer that starts with
  such a type octet the result is that type with everything after it as the value. On
  the buffer of the module's test, \<open>b'\x1e\x00'\<close>, the result is type 30 with value
  \<open>b'\x00'\<close>.
\<close>

theorem iev1_unknown_tv_type_decodes:
  "(uint t < 128 \<and> TV_LEN_DICT (uint t) = None \<longrightarrow>
      IEv1_unpack (t # rest) = Inr \<lparr>ie1_type = uint t, ie1_len = LenNone, ie1_data = rest\<rparr>)
   \<and> IEv1_unpack [0x1e, 0x00] = Inr \<lparr>ie1_type = 30, ie1_len = LenNone, ie1_data = [0x00]\<rparr>"
proof (intro conjI impI)
  assume a: "uint t < 128 \<and> TV_LEN_DICT (uint t) = None"
  have "0 \<le> uint t" by simp
  with a have "drop_bit 7 (uint t) = 0"
    by (simp add: drop_bit_eq_div)
  with a show "IEv1_unpack (t # rest) = Inr \<lparr>ie1_type = uint t, ie1_len = LenNone, ie1_data = rest\<rparr>"
    by (simp add: IEv1_unpack_def encoding_def)
next
  show "IEv1_unpack [0x1e, 0x00] = Inr \<lparr>ie1_type = 30, ie1_len = LenNone, ie1_data = [0x00]\<rparr>"
    by (simp add: IEv1_unpack_def encoding_def TV_LEN_DICT_def)
qed

theorem iev1_unknown_tv_type_decodes_witness:
  "uint (0x1e :: byte) < 128 \<and> TV_LEN_DICT (uint (0x1e :: byte)) = None
   \<and> IEv1_unpack [0x1e, 0x05, 0x06] = Inr \<lparr>ie1_type = 30, ie1_len = LenNone, ie1_data = [0x05, 0x06]\<rparr>"
  using iev1_unknown_tv_type_decodes [of "0x1e" "[0x05, 0x06]"]
  by (simp add: TV_LEN_DICT_def)

section \<open>Properties of the DNS flag accessors\<close>



section \<open>Properties of DNS name decoding\<close>

lemma reach_loop: "reach buf s t \<Longrightarrow> unpack_name_loop buf s = unpack_name_loop buf t"
proof (induction rule: reach.induct)
  case reach_start
  show ?case by simp
next
  case (reach_next t u)
  have "unpack_name_loop buf t = unpack_name_loop buf u"
    using reach_next.hyps(2) by (subst unpack_name_loop.simps) simp
  with reach_next.IH show ?case by simp
qed

lemma reach_raise:
  assumes "reach buf s t" and "unpack_name_step buf t = Raise e"
  shows "unpack_name_loop buf s = Inl e"
proof -
  have "unpack_name_loop buf t = Inl e"
    using assms(2) by (subst unpack_name_loop.simps) simp
  with reach_loop [OF assms(1)] show ?thesis by simp
qed



lemma step_start_off:
  "unpack_name_step buf (off, start_off, sv, nm, nl) = Next (off', start_off', sv', nm', nl')
   \<Longrightarrow> start_off' \<le> start_off"
  by (auto simp: unpack_name_step_def Let_def split: if_splits)

lemma reach_start_off:
  "reach buf (off0, start0, sv0, nm0, nl0) t \<Longrightarrow> fst (snd t) \<le> start0"
proof (induction rule: reach.induct)
  case reach_start
  show ?case by simp
next
  case (reach_next t u)
  obtain a b c d e where t: "t = (a, b, c, d, e)" by (cases t)
  obtain a' b' c' d' e' where u: "u = (a', b', c', d', e')" by (cases u)
  from reach_next.hyps(2) have "b' \<le> b" unfolding t u by (rule step_start_off)
  with reach_next.IH show ?case by (simp add: t u)
qed




lemma step_off:
  "unpack_name_step buf (off, start_off, saved_off, name, name_length)
     = Next (off', start_off', saved_off', name', name_length')
   \<Longrightarrow> start_off \<le> off \<Longrightarrow> start_off' \<le> off'"
  by (auto simp: unpack_name_step_def Let_def split: if_splits)

lemma reach_off:
  "reach buf s t \<Longrightarrow> fst (snd s) \<le> fst s \<Longrightarrow> fst (snd t) \<le> fst t"
proof (induction rule: reach.induct)
  case reach_start
  then show ?case by simp
next
  case (reach_next t u)
  obtain a b c d e where t: "t = (a, b, c, d, e)" by (cases t) auto
  obtain a' b' c' d' e' where u: "u = (a', b', c', d', e')" by (cases u) auto
  from reach_next show ?case using step_off [of buf a b c d e a' b' c' d' e'] by (simp add: t u)
qed

lemma loop_unpack_error:
  "unpack_name decode_utf8 buf off0 = Inl (UnpackError msg)
   \<longleftrightarrow> unpack_name_loop buf (off0, off0, 0, [], 0) = Inl (UnpackError msg)"
  by (auto simp: unpack_name_def Let_def split: sum.splits prod.splits option.splits)

lemma pointer_guard_raises:
  assumes "reach buf (off0, off0, 0, [], 0) (off, start_off, saved_off, name, name_length)"
      and "off + 1 < length buf"
      and "unat (buf ! off) AND 0xc0 = 0xc0"
      and "start_off \<le> be16 (buf ! off) (buf ! (off + 1)) AND 0x3fff"
  shows "unpack_name decode_utf8 buf off0 = Inl (UnpackError ''Invalid label compression pointer'')"
proof -
  have nz: "unat (buf ! off) \<noteq> 0"
  proof
    assume "unat (buf ! off) = 0"
    with assms(3) show False by simp
  qed
  have "unpack_name_step buf (off, start_off, saved_off, name, name_length)
          = Raise (UnpackError ''Invalid label compression pointer'')"
    using assms(2,3,4) nz
    by (simp add: unpack_name_step_def Let_def slice_def)
  then have "unpack_name_loop buf (off0, off0, 0, [], 0)
          = Inl (UnpackError ''Invalid label compression pointer'')"
    by (rule reach_raise [OF assms(1)])
  then show ?thesis by (simp add: loop_unpack_error)
qed

text \<open>A name that is a pointer to its own first octet is rejected, wherever it starts.\<close>

lemma unpack_name_pointer_to_own_start:
  assumes "off0 + 1 < length buf"
      and "unat (buf ! off0) AND 0xc0 = 0xc0"
      and "be16 (buf ! off0) (buf ! (off0 + 1)) AND 0x3fff = off0"
  shows "unpack_name decode_utf8 buf off0 = Inl (UnpackError ''Invalid label compression pointer'')"
  using pointer_guard_raises [OF reach_start assms(1,2)] assms(3) by simp

text \<open>
  C1. Whenever the loop of \<open>unpack_name(buf, off0)\<close> is at a compression pointer (two
  octets, the first with its top two bits set) whose 14-bit target is at or after the
  name's own starting offset \<open>off0\<close>, the call raises the decode error
  \<open>UnpackError('Invalid label compression pointer')\<close>. The guard of the code compares
  the target with \<open>start_off\<close>, which starts at \<open>off0\<close>, only decreases and is never
  after the current offset, so the same holds for every target at or after the current
  \<open>start_off\<close> and for every pointer that does not point strictly backward from its
  own offset. Hence a pointer to itself is rejected: the message of
  \<open>test_circular_pointers\<close> has at offset 0 a pointer to offset 0, which its question
  name reaches, and decoding the message raises that error. \<open>unpack_name_loop\<close> is a
  total function (its termination is proved), so no input makes the decoder run forever.
\<close>

theorem unpack_name_pointer_guard:
  assumes "reach buf (off0, off0, 0, [], 0) (off, start_off, saved_off, name, name_length)"
      and "off + 1 < length buf"
      and "unat (buf ! off) AND 0xc0 = 0xc0"
      and "ptr = be16 (buf ! off) (buf ! (off + 1)) AND 0x3fff"
      and "off0 \<le> ptr \<or> start_off \<le> ptr \<or> off \<le> ptr"
  shows "unpack_name decode_utf8 buf off0 = Inl (UnpackError ''Invalid label compression pointer'')"
proof -
  have "start_off \<le> off0" using reach_start_off [OF assms(1)] by simp
  moreover have "start_off \<le> off" using reach_off [OF assms(1)] by simp
  ultimately have "start_off \<le> ptr" using assms(5) by auto
  then show ?thesis
    using pointer_guard_raises [OF assms(1,2,3)] assms(4) by simp
qed

lemma circular_reach:
  "reach circular_pointers (12, 12, 0, [], 0)
     (0, 0, 26, [[0x65, 0x78, 0x61, 0x6d, 0x70, 0x6c, 0x65], [0x63, 0x6f, 0x6d]], 12)"
proof -
  have s1: "unpack_name_step circular_pointers (12, 12, 0, [], 0)
              = Next (20, 12, 0, [[0x65, 0x78, 0x61, 0x6d, 0x70, 0x6c, 0x65]], 8)"
    by (simp add: unpack_name_step_def circular_pointers_def slice_def)
  have s2: "unpack_name_step circular_pointers (20, 12, 0, [[0x65, 0x78, 0x61, 0x6d, 0x70, 0x6c, 0x65]], 8)
              = Next (24, 12, 0, [[0x65, 0x78, 0x61, 0x6d, 0x70, 0x6c, 0x65], [0x63, 0x6f, 0x6d]], 12)"
    by (simp add: unpack_name_step_def circular_pointers_def slice_def)
  have s3: "unpack_name_step circular_pointers
              (24, 12, 0, [[0x65, 0x78, 0x61, 0x6d, 0x70, 0x6c, 0x65], [0x63, 0x6f, 0x6d]], 12)
              = Next (0, 0, 26, [[0x65, 0x78, 0x61, 0x6d, 0x70, 0x6c, 0x65], [0x63, 0x6f, 0x6d]], 12)"
    by (simp add: unpack_name_step_def circular_pointers_def slice_def be16_def)
  show ?thesis
    by (rule reach_next [OF reach_next [OF reach_next [OF reach_start s1] s2] s3])
qed

text \<open>An error in the name of the first question is the error of decoding the message.\<close>

lemma unpack_n_first:
  "f buf off = Inl e \<Longrightarrow> 0 < cnt \<Longrightarrow> unpack_n f cnt buf off = Inl e"
  by (cases cnt) simp_all

lemma DNS_unpack_question_name:
  assumes "12 \<le> length buf" and "0 < be_int (slice buf 4 6)"
      and "unpack_name dec buf 12 = Inl e"
  shows "DNS_unpack dec buf = Inl e"
proof -
  have "unpack_q dec buf 12 = Inl e"
    using assms(3) by (simp add: unpack_q_def bind_def)
  then have "unpack_n (unpack_q dec) (nat (be_int (slice buf 4 6))) buf 12 = Inl e"
    using assms(2) by (simp add: unpack_n_first)
  then show ?thesis using assms(1) by (simp add: DNS_unpack_def bind_def)
qed

theorem unpack_name_pointer_guard_witness:
  "reach circular_pointers (12, 12, 0, [], 0)
     (0, 0, 26, [[0x65, 0x78, 0x61, 0x6d, 0x70, 0x6c, 0x65], [0x63, 0x6f, 0x6d]], 12)
   \<and> 0 + 1 < length circular_pointers
   \<and> unat (circular_pointers ! 0) AND 0xc0 = 0xc0
   \<and> be16 (circular_pointers ! 0) (circular_pointers ! (0 + 1)) AND 0x3fff = 0
   \<and> unpack_name Some circular_pointers 12 = Inl (UnpackError ''Invalid label compression pointer'')
   \<and> DNS_unpack Some circular_pointers = Inl (UnpackError ''Invalid label compression pointer'')"
proof -
  have a: "0 + 1 < length circular_pointers" by (simp add: circular_pointers_def)
  have b: "unat (circular_pointers ! 0) AND 0xc0 = 0xc0" by (simp add: circular_pointers_def)
  have c: "0 = be16 (circular_pointers ! 0) (circular_pointers ! (0 + 1)) AND 0x3fff"
    by (simp add: circular_pointers_def be16_def)
  have d: "(12::nat) \<le> 0 \<or> (0::nat) \<le> 0 \<or> (0::nat) \<le> 0" by simp
  have e: "unpack_name Some circular_pointers 12
             = Inl (UnpackError ''Invalid label compression pointer'')"
    using unpack_name_pointer_guard [OF circular_reach a b c d, of Some] .
  have f: "DNS_unpack Some circular_pointers
             = Inl (UnpackError ''Invalid label compression pointer'')"
    by (rule DNS_unpack_question_name [OF _ _ e])
       (simp_all add: circular_pointers_def be_int_def slice_def)
  show ?thesis
    using circular_reach a b c e f by simp
qed









section \<open>Properties of DNS encoding\<close>

text \<open>
  C3. The claim is that \<open>pack_name\<close> records an offset only when it is below 0x4000.
  The test in the code is \<open>ptr < 0xc000\<close>. Packing \<open>'a.b'\<close> at offset 0x4000 with an
  empty table records \<open>'A.B.'\<close> at 0x4000 and \<open>'B.'\<close> at 0x4002; packing the same name
  again with that table emits the pointer \<open>0xc000 | 0x4000\<close>, the octets c0 00, whose
  low 14 bits are 0 and not 0x4000.
\<close>

theorem pack_name_records_offset_16384:
  "pack_name [0x61, 0x2e, 0x62] 0x4000 Map.empty
     = Inr ([1, 0x61, 1, 0x62, 0], [[0x41, 0x2e, 0x42, 0x2e] \<mapsto> 0x4000, [0x42, 0x2e] \<mapsto> 0x4002])
   \<and> pack_name [0x61, 0x2e, 0x62] 0x4007 [[0x41, 0x2e, 0x42, 0x2e] \<mapsto> 0x4000, [0x42, 0x2e] \<mapsto> 0x4002]
     = Inr ([0xc0, 0x00], [[0x41, 0x2e, 0x42, 0x2e] \<mapsto> 0x4000, [0x42, 0x2e] \<mapsto> 0x4002])
   \<and> be16 0xc0 0x00 AND 0x3fff = 0"
  by (simp add: pack_name_def join_dot_def upper_def pack_B_def pack_H_def be16_def Let_def)


lemma pack_H_be16:
  assumes "pack_H (int n) = Inr bs"
  shows "\<exists>a b. bs = [a, b] \<and> be16 a b = n"
proof -
  from assms have n: "n < 65536" and bs: "bs = [word_of_int (drop_bit 8 (int n)), word_of_int (int n)]"
    by (auto simp: pack_H_def split: if_splits)
  have d: "drop_bit 8 (int n) = int (n div 256)" by (simp add: drop_bit_eq_div zdiv_int)
  have "n div 256 < 256" using n by simp
  then have hi: "unat (word_of_nat (n div 256) :: byte) = n div 256"
    by (simp add: unat_of_nat)
  have lo: "unat (word_of_nat n :: byte) = n mod 256"
    by (simp add: unat_of_nat)
  have "be16 (word_of_nat (n div 256)) (word_of_nat n) = n"
    unfolding be16_def hi lo by simp
  moreover have "bs = [word_of_nat (n div 256), word_of_nat n]"
    unfolding bs d by simp
  ultimately show ?thesis by blast
qed

lemma pack_fields_Cons:
  "pack_fields (f # fs) = Inr bs \<Longrightarrow> \<exists>b rest. f = Inr b \<and> pack_fields fs = Inr rest \<and> bs = b @ rest"
  by (auto split: sum.splits)

lemma pack_H_two: "pack_H v = Inr bs \<Longrightarrow> \<exists>a b. bs = [a, b]"
  by (auto simp: pack_H_def split: if_splits)

lemma take_prefix_length:
  assumes "take (length a) b = a"
  shows "length a \<le> length b"
proof -
  have "length (take (length a) b) = length a" by (simp only: assms)
  then show ?thesis by (simp add: min_def split: if_splits)
qed

lemma take_prefix_trans:
  assumes "take (length a) b = a" and "take (length b) c = b"
  shows "take (length a) c = a"
proof -
  have "length a \<le> length b" using assms(1) by (rule take_prefix_length)
  then have "take (length a) c = take (length a) (take (length b) c)" by (simp add: min_def)
  then show ?thesis using assms by simp
qed

lemma pack_all_prefix:
  assumes "\<And>buf label_ptrs x buf' label_ptrs'.
             f buf label_ptrs x = Inr (buf', label_ptrs') \<Longrightarrow> take (length buf) buf' = buf"
      and "pack_all f xs buf label_ptrs = Inr (buf', label_ptrs')"
  shows "take (length buf) buf' = buf"
  using assms(2)
proof (induction xs arbitrary: buf label_ptrs)
  case Nil
  then show ?case by simp
next
  case (Cons x xs)
  from Cons.prems obtain b1 t1 where s: "f buf label_ptrs x = Inr (b1, t1)"
      and r: "pack_all f xs b1 t1 = Inr (buf', label_ptrs')"
    by (auto split: sum.splits)
  from assms(1) [OF s] have p1: "take (length buf) b1 = buf" .
  from Cons.IH [OF r] have p2: "take (length b1) buf' = b1" .
  from p1 p2 show ?case by (rule take_prefix_trans)
qed

lemma pack_q_prefix:
  "pack_q buf label_ptrs q = Inr (buf', label_ptrs') \<Longrightarrow> take (length buf) buf' = buf"
  by (auto simp: pack_q_def bind_def split: sum.splits prod.splits)

lemma pack_rr_prefix:
  "pack_rr buf label_ptrs rr = Inr (buf', label_ptrs') \<Longrightarrow> take (length buf) buf' = buf"
  by (auto simp: pack_rr_def bind_def split: sum.splits prod.splits)

lemma DNS_bytes_header:
  assumes "DNS_bytes m = Inr bs"
  shows "\<exists>i p c1 c2 c3 c4.
           pack_H (dns_id m) = Inr i \<and> pack_H (dns_op m) = Inr p
           \<and> pack_H (int (length (qd m))) = Inr c1 \<and> pack_H (int (length (an m))) = Inr c2
           \<and> pack_H (int (length (ns m))) = Inr c3 \<and> pack_H (int (length (ar m))) = Inr c4
           \<and> take (length (i @ p @ c1 @ c2 @ c3 @ c4)) bs = i @ p @ c1 @ c2 @ c3 @ c4"
proof -
  from assms obtain hdr b1 t1 b2 t2 b3 t3 t4 where
      h: "pack_fields [pack_H (dns_id m), pack_H (dns_op m), pack_H (int (length (qd m))),
                        pack_H (int (length (an m))), pack_H (int (length (ns m))),
                        pack_H (int (length (ar m)))] = Inr hdr"
      and q: "pack_all pack_q (qd m) hdr Map.empty = Inr (b1, t1)"
      and r1: "pack_all pack_rr (an m) b1 t1 = Inr (b2, t2)"
      and r2: "pack_all pack_rr (ns m) b2 t2 = Inr (b3, t3)"
      and r3: "pack_all pack_rr (ar m) b3 t3 = Inr (bs, t4)"
    by (auto simp: DNS_bytes_def bind_def split: sum.splits prod.splits)
  from h obtain i p c1 c2 c3 c4 where
      f: "pack_H (dns_id m) = Inr i" "pack_H (dns_op m) = Inr p"
         "pack_H (int (length (qd m))) = Inr c1" "pack_H (int (length (an m))) = Inr c2"
         "pack_H (int (length (ns m))) = Inr c3" "pack_H (int (length (ar m))) = Inr c4"
      and hdr: "hdr = i @ p @ c1 @ c2 @ c3 @ c4"
    by (auto split: sum.splits)
  have p1: "take (length hdr) b1 = hdr" by (rule pack_all_prefix [OF pack_q_prefix q])
  have p2: "take (length b1) b2 = b1" by (rule pack_all_prefix [OF pack_rr_prefix r1])
  have p3: "take (length b2) b3 = b2" by (rule pack_all_prefix [OF pack_rr_prefix r2])
  have p4: "take (length b3) bs = b3" by (rule pack_all_prefix [OF pack_rr_prefix r3])
  have "take (length hdr) bs = hdr"
    by (rule take_prefix_trans [OF take_prefix_trans [OF take_prefix_trans [OF p1 p2] p3] p4])
  with f show ?thesis unfolding hdr by blast
qed

lemma DNS_bytes_counts:
  assumes "DNS_bytes m = Inr bs"
  shows "12 \<le> length bs
         \<and> be16 (bs ! 4) (bs ! 5) = length (qd m) \<and> be16 (bs ! 6) (bs ! 7) = length (an m)
         \<and> be16 (bs ! 8) (bs ! 9) = length (ns m) \<and> be16 (bs ! 10) (bs ! 11) = length (ar m)"
proof -
  from DNS_bytes_header [OF assms] obtain i p c1 c2 c3 c4 where
      ip: "pack_H (dns_id m) = Inr i" "pack_H (dns_op m) = Inr p"
      and c: "pack_H (int (length (qd m))) = Inr c1" "pack_H (int (length (an m))) = Inr c2"
         "pack_H (int (length (ns m))) = Inr c3" "pack_H (int (length (ar m))) = Inr c4"
      and t: "take (length (i @ p @ c1 @ c2 @ c3 @ c4)) bs = i @ p @ c1 @ c2 @ c3 @ c4"
    by blast
  from ip obtain i0 i1 p0 p1 where e1: "i = [i0, i1]" "p = [p0, p1]"
    by (auto dest!: pack_H_two)
  from pack_H_be16 [OF c(1)] obtain q0 q1 where e2: "c1 = [q0, q1]" "be16 q0 q1 = length (qd m)" by blast
  from pack_H_be16 [OF c(2)] obtain a0 a1 where e3: "c2 = [a0, a1]" "be16 a0 a1 = length (an m)" by blast
  from pack_H_be16 [OF c(3)] obtain n0 n1 where e4: "c3 = [n0, n1]" "be16 n0 n1 = length (ns m)" by blast
  from pack_H_be16 [OF c(4)] obtain r0 r1 where e5: "c4 = [r0, r1]" "be16 r0 r1 = length (ar m)" by blast
  have "length (i @ p @ c1 @ c2 @ c3 @ c4) = 12" by (simp add: e1 e2 e3 e4 e5)
  with t have "take 12 bs = i @ p @ c1 @ c2 @ c3 @ c4" by (simp only:)
  then have t': "take 12 bs = [i0, i1, p0, p1, q0, q1, a0, a1, n0, n1, r0, r1]"
    by (simp add: e1 e2 e3 e4 e5)
  then have "length (take 12 bs) = 12" by simp
  then have len: "12 \<le> length bs" by simp
  have n: "\<And>k. k < 12 \<Longrightarrow> bs ! k = (take 12 bs) ! k" by simp
  have "bs ! 4 = q0" "bs ! 5 = q1" "bs ! 6 = a0" "bs ! 7 = a1"
       "bs ! 8 = n0" "bs ! 9 = n1" "bs ! 10 = r0" "bs ! 11 = r1"
    by (simp_all add: n t')
  with e2 e3 e4 e5 len show ?thesis by simp
qed

lemma IEv2_bytes_length_field:
  assumes "IEv2_bytes ie = Inr (ibs, ie')"
  shows "be16 (ibs ! 1) (ibs ! 2) = length (ie2_data ie) \<and> drop 4 ibs = ie2_data ie
         \<and> ie2_len ie' = int (length (ie2_data ie))"
proof -
  from assms obtain t l f where
      p: "pack_B (ie2_type ie) = Inr t" "pack_H (int (length (ie2_data ie))) = Inr l"
         "pack_B (ie2_flags ie) = Inr f"
      and r: "ibs = t @ l @ f @ ie2_data ie" "ie' = ie\<lparr>ie2_len := int (length (ie2_data ie))\<rparr>"
    by (auto simp: IEv2_bytes_def IEv2_pack_hdr_def Let_def split: sum.splits prod.splits)
  from p(1) obtain t0 where t: "t = [t0]" by (auto simp: pack_B_def split: if_splits)
  from p(3) obtain f0 where f: "f = [f0]" by (auto simp: pack_B_def split: if_splits)
  from pack_H_be16 [OF p(2)] obtain l0 l1 where l: "l = [l0, l1]" "be16 l0 l1 = length (ie2_data ie)"
    by blast
  have "ibs = [t0, l0, l1, f0] @ ie2_data ie" using r(1) t f l(1) by simp
  with l(2) r(2) show ?thesis by simp
qed

text \<open>
  C9. Whenever encoding a DNS message returns octets, the four counts of the header
  (octets 4 to 11) are the lengths of the lists \<open>qd\<close>, \<open>an\<close>, \<open>ns\<close> and \<open>ar\<close> of the
  message; the message holds no other counts. Whenever encoding a GTPv2 IE returns
  octets, its 2-octet length field is the length of the value, the value follows the
  four header octets, and the stored \<open>len\<close> is overwritten with that length: the
  result does not depend on the \<open>len\<close> stored before.
\<close>

theorem encode_counts_derived:
  "(DNS_bytes m = Inr bs \<longrightarrow>
      12 \<le> length bs
      \<and> be16 (bs ! 4) (bs ! 5) = length (qd m) \<and> be16 (bs ! 6) (bs ! 7) = length (an m)
      \<and> be16 (bs ! 8) (bs ! 9) = length (ns m) \<and> be16 (bs ! 10) (bs ! 11) = length (ar m))
   \<and> (IEv2_bytes ie = Inr (ibs, ie') \<longrightarrow>
      be16 (ibs ! 1) (ibs ! 2) = length (ie2_data ie) \<and> drop 4 ibs = ie2_data ie
      \<and> ie2_len ie' = int (length (ie2_data ie)))
   \<and> IEv2_bytes (ie\<lparr>ie2_len := stored\<rparr>) = IEv2_bytes ie"
proof (intro conjI impI)
  show "IEv2_bytes (ie\<lparr>ie2_len := stored\<rparr>) = IEv2_bytes ie"
    by (simp add: IEv2_bytes_def IEv2_pack_hdr_def)
qed (use DNS_bytes_counts IEv2_bytes_length_field in blast)+

theorem encode_counts_derived_witness:
  "DNS_bytes www_cnn_com
     = Inr [0x05, 0xf5, 0x01, 0x00, 0x00, 0x01, 0x00, 0x00, 0x00, 0x00, 0x00, 0x00,
            0x03, 0x77, 0x77, 0x77, 0x03, 0x63, 0x6e, 0x6e, 0x03, 0x63, 0x6f, 0x6d, 0x00,
            0x00, 0x01, 0x00, 0x01]
   \<and> length (qd www_cnn_com) = 1 \<and> length (an www_cnn_com) = 0
   \<and> IEv2_bytes (imsi_ie\<lparr>ie2_len := 77\<rparr>)
       = Inr ([0x01, 0x00, 0x08, 0x00, 0xaa, 0xaa, 0xaa, 0xaa, 0xaa, 0xaa, 0xaa, 0xaa],
              imsi_ie\<lparr>ie2_len := 8\<rparr>)
   \<and> length (ie2_data imsi_ie) = 8"
proof -
  have d: "DNS_bytes www_cnn_com
     = Inr [0x05, 0xf5, 0x01, 0x00, 0x00, 0x01, 0x00, 0x00, 0x00, 0x00, 0x00, 0x00,
            0x03, 0x77, 0x77, 0x77, 0x03, 0x63, 0x6e, 0x6e, 0x03, 0x63, 0x6f, 0x6d, 0x00,
            0x00, 0x01, 0x00, 0x01]"
    by (simp add: DNS_bytes_def www_cnn_com_def bind_def pack_q_def pack_name_def pack_H_def
                  pack_B_def join_dot_def upper_def Let_def)
  have i: "IEv2_bytes (imsi_ie\<lparr>ie2_len := 77\<rparr>)
       = Inr ([0x01, 0x00, 0x08, 0x00, 0xaa, 0xaa, 0xaa, 0xaa, 0xaa, 0xaa, 0xaa, 0xaa],
              imsi_ie\<lparr>ie2_len := 8\<rparr>)"
    by (simp add: IEv2_bytes_def IEv2_pack_hdr_def imsi_ie_def IEv2_default_def pack_B_def pack_H_def
                  numeral_eq_Suc)
  show ?thesis
    using encode_counts_derived [of www_cnn_com _ "imsi_ie\<lparr>ie2_len := 77\<rparr>" _ "imsi_ie\<lparr>ie2_len := 8\<rparr>" 5] d i
    by (simp add: www_cnn_com_def imsi_ie_def IEv2_default_def)
qed


section \<open>Properties of DNS message decoding\<close>

text \<open>
  The query of \<open>test_basic\<close> decodes to the message with one question for
  \<open>www.cnn.com\<close>, and that message encodes to the same octets.
\<close>

lemma www_cnn_com_name:
  "unpack_name Some www_cnn_com_octets 12
     = Inr ([0x77, 0x77, 0x77, 0x2e, 0x63, 0x6e, 0x6e, 0x2e, 0x63, 0x6f, 0x6d], 25)"
  by (simp add: unpack_name_def unpack_name_loop.simps unpack_name_step_def www_cnn_com_octets_def
        slice_def join_dot_def)

lemma www_cnn_com_question:
  "unpack_q Some www_cnn_com_octets 12
     = Inr (\<lparr>q_name = [0x77, 0x77, 0x77, 0x2e, 0x63, 0x6e, 0x6e, 0x2e, 0x63, 0x6f, 0x6d],
             q_type = 1, q_cls = 1\<rparr>, 29)"
  by (simp add: unpack_q_def bind_def www_cnn_com_name)
     (simp add: www_cnn_com_octets_def be_int_def slice_def)

lemma www_cnn_com_decoded: "DNS_unpack Some www_cnn_com_octets = Inr www_cnn_com"
proof -
  have c: "nat (be_int (slice www_cnn_com_octets 4 6)) = Suc 0"
          "nat (be_int (slice www_cnn_com_octets 6 8)) = 0"
          "nat (be_int (slice www_cnn_com_octets 8 10)) = 0"
          "nat (be_int (slice www_cnn_com_octets 10 12)) = 0"
          "be_int (slice www_cnn_com_octets 0 2) = 0x05f5"
          "be_int (slice www_cnn_com_octets 2 4) = 0x0100"
    by (simp_all add: www_cnn_com_octets_def be_int_def slice_def)
  have l: "\<not> length www_cnn_com_octets < 12" by (simp add: www_cnn_com_octets_def)
  show ?thesis
    by (simp add: DNS_unpack_def l c www_cnn_com_question bind_def www_cnn_com_def)
qed

lemma www_cnn_com_encoded: "DNS_bytes www_cnn_com = Inr www_cnn_com_octets"
  by (simp add: DNS_bytes_def www_cnn_com_def www_cnn_com_octets_def bind_def pack_q_def
        pack_name_def pack_H_def pack_B_def upper_def join_dot_def Let_def)

section \<open>Properties of the GTP messages\<close>

lemmas gtp_eval =
  GTPv2C_unpack_def GTPv1C_unpack_def t_flag_def additionals_def bind_def be16_def
  parse_ies_v2.simps parse_ies_v1.simps IEv2_unpack_def IEv1_unpack_def IEv2_len_def IEv1_len_def
  encoding_def TV_LEN_DICT_def slice_def
  GTPv2C_pack_hdr_def GTPv1C_pack_hdr_def GTPv2C_bytes_def GTPv1C_bytes_def
  Packet_pack_hdr_v2_def Packet_pack_hdr_v1_def IEv2_octets_def IEv2_bytes_def IEv2_pack_hdr_def
  IEv1_bytes_def IEv1_pack_hdr_def pack_B_def pack_H_def pack_I_def int_attr_def attr_def octet_def
  pack_2B_def pack_3B_def pack_4B_def IEv2_default_def Let_def

lemma GTPv2C_unpack_no_teid:
  assumes "4 \<le> length buf" and "drop_bit 3 (uint (buf ! 0)) AND 0x1 = 0"
  shows "GTPv2C_unpack buf =
           (case parse_ies_v2 (drop 9 buf) of
              Inl e \<Rightarrow> Inl e
            | Inr l \<Rightarrow>
                Inr \<lparr>v2_flags = uint (buf ! 0), v2_type = uint (buf ! 1),
                       v2_len = int (be16 (buf ! 2) (buf ! 3)), v2_teid = None,
                       v2_seqnum = Some (PBytes (take 3 (drop 4 buf))), v2_priority = None,
                       v2_data = Payload_list l, v2_ies = Some l\<rparr>)"
  using assms
  by (simp add: GTPv2C_unpack_def t_flag_def bind_def Let_def split: sum.splits)

text \<open>
  C2. The claim is that decoding a GTPv2-C message without TEID consumes exactly four
  payload octets before the IEs, mirroring the four that encoding writes. Decoding
  drops five (\<open>self.data[5:]\<close>) and keeps the sequence number as three raw octets. For
  the Echo Response built by the factory, \<open>pack_hdr\<close> produces the header 40 02 00 09
  and the body 00 00 01 00 followed by the Recovery IE 03 00 01 00 07; decoding those
  thirteen octets starts the IE list one octet late and returns a single IE of type 0
  with length 256 and flags 7 instead of the Recovery IE. Encoding does not write the
  four octets back either: \<open>pack_hdr\<close> puts them into \<open>data\<close>, but \<open>__bytes__\<close> returns
  the four header octets followed by the octets of the elements of \<open>ies\<close> only, and
  on the decoded message, whose \<open>seqnum\<close> is a byte string, it raises \<open>TypeError\<close>.
\<close>

theorem gtpv2c_no_teid_decode_skips_five:
  "GTPv2C_unpack echo_res_no_teid
     = Inr \<lparr>v2_flags = 0x40, v2_type = 2, v2_len = 9, v2_teid = None,
            v2_seqnum = Some (PBytes [0x00, 0x00, 0x01]), v2_priority = None,
            v2_data = Payload_list [\<lparr>ie2_type = 0, ie2_len = 256, ie2_flags = 7, ie2_data = []\<rparr>],
            v2_ies = Some [\<lparr>ie2_type = 0, ie2_len = 256, ie2_flags = 7, ie2_data = []\<rparr>]\<rparr>
   \<and> GTPv2C_pack_hdr echo_res_msg
     = Inr ([0x40, 0x02, 0x00, 0x09],
            echo_res_msg\<lparr>v2_seqnum := Some (PBytes [0x00, 0x00, 0x01]),
                           v2_data := Payload_bytes [0x00, 0x00, 0x01, 0x00, 0x03, 0x00, 0x01, 0x00, 0x07],
                           v2_len := 9\<rparr>)
   \<and> echo_res_no_teid = [0x40, 0x02, 0x00, 0x09] @ [0x00, 0x00, 0x01, 0x00, 0x03, 0x00, 0x01, 0x00, 0x07]
   \<and> GTPv2C_bytes (echo_res_msg\<lparr>v2_ies := Some [IEv2_default\<lparr>ie2_type := 3, ie2_data := [0x07]\<rparr>]\<rparr>)
     = Inr ([0x40, 0x02, 0x00, 0x09, 0x03, 0x00, 0x01, 0x00, 0x07],
            echo_res_msg\<lparr>v2_seqnum := Some (PBytes [0x00, 0x00, 0x01]),
                           v2_data := Payload_bytes [0x00, 0x00, 0x01, 0x00, 0x03, 0x00, 0x01, 0x00, 0x07],
                           v2_len := 9,
                           v2_ies := Some [IEv2_default\<lparr>ie2_type := 3, ie2_data := [0x07]\<rparr>]\<rparr>)
   \<and> GTPv2C_bytes \<lparr>v2_flags = 0x40, v2_type = 2, v2_len = 9, v2_teid = None,
            v2_seqnum = Some (PBytes [0x00, 0x00, 0x01]), v2_priority = None,
            v2_data = Payload_list [\<lparr>ie2_type = 0, ie2_len = 256, ie2_flags = 7, ie2_data = []\<rparr>],
            v2_ies = Some [\<lparr>ie2_type = 0, ie2_len = 256, ie2_flags = 7, ie2_data = []\<rparr>]\<rparr>
     = Inl TypeError"
  by (simp add: echo_res_no_teid_def echo_res_msg_def gtp_eval)


lemma pdp_req_is_decoded: "GTPv1C_unpack pdp_req = Inr pdp_req_decoded"
  by (simp add: pdp_req_def pdp_req_decoded_def gtp_eval)









section \<open>Properties of the F-TEID sub-codec\<close>

lemma octets_teid_roundtrip:
  "octets_teid (ucast (drop_bit 24 t)) (ucast (drop_bit 16 t)) (ucast (drop_bit 8 t)) (ucast t) = (t :: 32 word)"
  unfolding octets_teid_def
proof (rule bit_word_eqI)
  fix n :: nat
  assume n: "n < LENGTH(32)"
  consider "n < 8" | "8 \<le> n" "n < 16" | "16 \<le> n" "n < 24" | "24 \<le> n" by linarith
  then show "bit (push_bit 24 (ucast (ucast (drop_bit 24 t) :: byte)) OR
                  push_bit 16 (ucast (ucast (drop_bit 16 t) :: byte)) OR
                  push_bit 8 (ucast (ucast (drop_bit 8 t) :: byte)) OR ucast (ucast t :: byte) :: 32 word) n
             = bit t n"
  proof cases
    case 1
    then show ?thesis using n by (simp add: bit_simps)
  next
    case 2
    then show ?thesis using n by (auto simp: bit_simps)
  next
    case 3
    then show ?thesis using n by (auto simp: bit_simps)
  next
    case 4
    then show ?thesis using n by (auto simp: bit_simps)
  qed
qed

lemma flags_interface_type:
  assumes "(f :: byte) AND 0x3f = 0"
  shows "ucast ((f OR ucast (i :: 6 word)) AND 0x3f) = i"
proof -
  have m: "(0x3f :: byte) = mask 6" by (simp add: mask_eq_exp_minus_1)
  have "(f OR ucast i) AND 0x3f = (ucast i :: byte) AND 0x3f"
    using assms by (simp add: bit.conj_disj_distrib2)
  also have "\<dots> = ucast i"
    unfolding m by (rule bit_word_eqI) (auto simp: bit_simps dest: bit_imp_le_length)
  finally have "(f OR ucast i) AND 0x3f = ucast i" .
  moreover have "ucast (ucast i :: byte) = i"
    by (rule bit_word_eqI) (auto simp: bit_simps)
  ultimately show ?thesis by simp
qed


lemma interface_type_six_bits: "(ucast (i :: 6 word) :: byte) AND 0x3f = ucast i"
proof -
  have m: "(0x3f :: byte) = mask 6" by (simp add: mask_eq_exp_minus_1)
  show ?thesis
    unfolding m by (rule bit_word_eqI) (auto simp: bit_simps dest: bit_imp_le_length)
qed

lemma interface_type_no_v6: "(ucast (i :: 6 word) :: byte) AND 0x40 = 0"
proof -
  have "(ucast i :: byte) AND 0x40 = (ucast i AND 0x3f) AND 0x40"
    by (simp only: interface_type_six_bits)
  also have "\<dots> = ucast i AND (0x3f AND 0x40)" by (simp only: and.assoc)
  finally show ?thesis by simp
qed

lemma fteid_roundtrip_ipv4:
  assumes "length a = 4"
  shows "decode_fteid ([0x80 OR ucast interface_type] @ teid_octets teid @ a)
           = Inr \<lparr>ft_teid = teid, ft_interface_type = interface_type,
                  ft_ipv4 = Some a, ft_ipv6 = None\<rparr>"
proof -
  have v4: "((0x80 :: byte) OR ucast interface_type) AND 0x80 = 0x80"
    by (simp add: bit.conj_disj_distrib2)
  have v6: "((0x80 :: byte) OR ucast interface_type) AND 0x40 = 0"
    by (simp add: bit.conj_disj_distrib2 interface_type_no_v6)
  have it: "ucast (((0x80 :: byte) OR ucast interface_type) AND 0x3f) = interface_type"
    by (rule flags_interface_type) simp
  show ?thesis
    using assms
    by (simp add: decode_fteid_def teid_octets_def bind_def Let_def octets_teid_roundtrip v4 v6 it)
qed

text \<open>
  C8. Encoding an F-TEID with neither an IPv4 nor an IPv6 address fails with a value
  error. Decoding fails with a decode error on fewer than 5 octets, on a value whose
  flags announce an IPv4 address that is not followed by 4 octets, and on a value whose
  flags announce an IPv6 address that is not followed (after the IPv4 address, when
  flagged) by 16 octets. A value encoded with only an IPv4 address of four octets
  decodes to the original TEID, interface type and IPv4 address, with no IPv6 field.
\<close>

theorem fteid_errors_and_roundtrip:
  "encode_fteid teid interface_type None None = Inl ValueError
   \<and> (length buf1 < 5 \<longrightarrow> decode_fteid buf1 = Inl (UnpackError []))
   \<and> (5 \<le> length buf2 \<and> buf2 ! 0 AND 0x80 \<noteq> 0 \<and> length buf2 < 5 + 4
        \<longrightarrow> decode_fteid buf2 = Inl (UnpackError []))
   \<and> (5 \<le> length buf3 \<and> buf3 ! 0 AND 0x40 \<noteq> 0
        \<and> length buf3 < 5 + (if buf3 ! 0 AND 0x80 \<noteq> 0 then 4 else 0) + 16
        \<longrightarrow> decode_fteid buf3 = Inl (UnpackError []))
   \<and> (length a = 4 \<longrightarrow>
        (\<exists>bs. encode_fteid teid interface_type (Some a) None = Inr bs
              \<and> decode_fteid bs = Inr \<lparr>ft_teid = teid, ft_interface_type = interface_type,
                                        ft_ipv4 = Some a, ft_ipv6 = None\<rparr>))"
proof (intro conjI impI)
  show "encode_fteid teid interface_type None None = Inl ValueError"
    by (simp add: encode_fteid_def)
next
  assume "length buf1 < 5"
  then show "decode_fteid buf1 = Inl (UnpackError [])"
    by (simp add: decode_fteid_def)
next
  assume "5 \<le> length buf2 \<and> buf2 ! 0 AND 0x80 \<noteq> 0 \<and> length buf2 < 5 + 4"
  then show "decode_fteid buf2 = Inl (UnpackError [])"
    by (auto simp: decode_fteid_def bind_def Let_def)
next
  assume "5 \<le> length buf3 \<and> buf3 ! 0 AND 0x40 \<noteq> 0
        \<and> length buf3 < 5 + (if buf3 ! 0 AND 0x80 \<noteq> 0 then 4 else 0) + 16"
  then show "decode_fteid buf3 = Inl (UnpackError [])"
    by (auto simp: decode_fteid_def bind_def Let_def split: if_splits)
next
  assume "length a = 4"
  then show "\<exists>bs. encode_fteid teid interface_type (Some a) None = Inr bs
              \<and> decode_fteid bs = Inr \<lparr>ft_teid = teid, ft_interface_type = interface_type,
                                        ft_ipv4 = Some a, ft_ipv6 = None\<rparr>"
    using fteid_roundtrip_ipv4 [of a interface_type teid]
    by (simp add: encode_fteid_def)
qed

theorem fteid_errors_and_roundtrip_witness:
  "length [0x80, 0x00, 0x00 :: byte] < 5
   \<and> decode_fteid [0x80, 0x00, 0x00] = Inl (UnpackError [])
   \<and> 5 \<le> length [0x8a, 0x00, 0x00, 0x12, 0x34, 0x01, 0x02 :: byte]
   \<and> [0x8a, 0x00, 0x00, 0x12, 0x34, 0x01, 0x02 :: byte] ! 0 AND 0x80 = 0x80
   \<and> length [0x8a, 0x00, 0x00, 0x12, 0x34, 0x01, 0x02 :: byte] < 5 + 4
   \<and> decode_fteid [0x8a, 0x00, 0x00, 0x12, 0x34, 0x01, 0x02] = Inl (UnpackError [])
   \<and> [0x4b, 0x00, 0x00, 0x12, 0x34, 0x20, 0x01 :: byte] ! 0 AND 0x40 = 0x40
   \<and> decode_fteid [0x4b, 0x00, 0x00, 0x12, 0x34, 0x20, 0x01] = Inl (UnpackError [])
   \<and> length [10, 0, 0, 1 :: byte] = 4
   \<and> encode_fteid 0xdeadbeef 10 (Some [10, 0, 0, 1]) None
        = Inr [0x8a, 0xde, 0xad, 0xbe, 0xef, 10, 0, 0, 1]
   \<and> decode_fteid [0x8a, 0xde, 0xad, 0xbe, 0xef, 10, 0, 0, 1]
        = Inr \<lparr>ft_teid = 0xdeadbeef, ft_interface_type = 10,
               ft_ipv4 = Some [10, 0, 0, 1], ft_ipv6 = None\<rparr>"
proof -
  have e: "encode_fteid 0xdeadbeef 10 (Some [10, 0, 0, 1]) None
        = Inr [0x8a, 0xde, 0xad, 0xbe, 0xef, 10, 0, 0, 1]"
    by (simp add: encode_fteid_def teid_octets_def)
  show ?thesis
    using fteid_errors_and_roundtrip [of "0xdeadbeef" 10 "[0x80, 0x00, 0x00]"
            "[0x8a, 0x00, 0x00, 0x12, 0x34, 0x01, 0x02]"
            "[0x4b, 0x00, 0x00, 0x12, 0x34, 0x20, 0x01]" "[10, 0, 0, 1]"] e
    by simp
qed


end
